theory Spec2Isabelle
  imports Complex_Main "HOL-Library.Multiset"
begin

section \<open>Brancher inference engine: shallow embedding of \<^verbatim>\<open>brancher/inference.py\<close>\<close>

text \<open>
  The module drives gradient-based inference over collaborators that live in other modules
  (the probabilistic-model graph, the optimizer wrapper, torch's automatic differentiation).
  Their operations are parameters of the embedding; every call of the source that can raise
  is a branch returning \<open>Inl\<close> of the error.

  Numbers. A float is a finite real or one of the three IEEE special values; rounding,
  overflow and signed zeros are not modelled.
\<close>

subsection \<open>Errors and floats\<close>

datatype error = IndexError | AssertionError | ValueError | RuntimeError | TypeError | AttributeError
  | ZeroDivisionError

fun ebind :: "error + 'a \<Rightarrow> ('a \<Rightarrow> error + 'b) \<Rightarrow> error + 'b" where
  "ebind (Inl e) f = Inl e"
| "ebind (Inr x) f = f x"

text \<open>
  A loop over a list whose body may raise: the first error ends the loop. \<open>emap\<close> is
  a list comprehension whose element expression may raise.
\<close>

fun efold :: "('a \<Rightarrow> 's \<Rightarrow> error + 's) \<Rightarrow> 'a list \<Rightarrow> 's \<Rightarrow> error + 's" where
  "efold f [] s = Inr s"
| "efold f (x # xs) s = ebind (f x s) (efold f xs)"

fun emap :: "('a \<Rightarrow> error + 'b) \<Rightarrow> 'a list \<Rightarrow> error + 'b list" where
  "emap f [] = Inr []"
| "emap f (x # xs) = ebind (f x) (\<lambda>y. ebind (emap f xs) (\<lambda>ys. Inr (y # ys)))"

text \<open>Python's \<^verbatim>\<open>xs[i]\<close> for an index that is not negative.\<close>

definition nth_err :: "'a list \<Rightarrow> nat \<Rightarrow> error + 'a" where
  "nth_err xs i = (if i < length xs then Inr (xs ! i) else Inl IndexError)"

datatype fval = Val real | PosInf | NegInf | NaN

fun isfinite :: "fval \<Rightarrow> bool" where
  "isfinite (Val x) = True"
| "isfinite PosInf = False"
| "isfinite NegInf = False"
| "isfinite NaN = False"

text \<open>
  A torch tensor or numpy array as the loop sees it: its shape and its elements in row-major
  order. \<open>flatten\<close> is numpy's \<^verbatim>\<open>ndarray.flatten()\<close>: the same elements in a
  one-dimensional array.
\<close>

record tensor =
  shape :: "nat list"
  elems :: "fval list"

definition flatten :: "tensor \<Rightarrow> tensor" where
  "flatten t = \<lparr>shape = [length (elems t)], elems = elems t\<rparr>"

text \<open>\<^verbatim>\<open>torch.isfinite(loss.detach()).all().item()\<close>\<close>

definition all_isfinite :: "tensor \<Rightarrow> bool" where
  "all_isfinite t = list_all isfinite (elems t)"

subsection \<open>The strategy interface and the collaborators of the training loop\<close>

text \<open>
  \<open>'w\<close> is the mutable world the run owns (parameters, gradients, random state, the
  models' attached slots), \<open>'m\<close> a model handle (\<open>None\<close> is Python's \<^verbatim>\<open>None\<close>),
  \<open>'o\<close> a \<^verbatim>\<open>ProbabilisticOptimizer\<close> object.
  \<open>inference_method\<close> is the abstract class \<^verbatim>\<open>InferenceMethod\<close> with the attributes the
  loop reads.
\<close>

record ('w, 'm) inference_method =
  learnable_posterior :: bool
  learnable_model :: bool
  learnable_sampler :: bool
  check_model_compatibility :: "'m \<Rightarrow> 'm option \<Rightarrow> 'm option \<Rightarrow> 'w \<Rightarrow> error + unit"
  compute_loss :: "'m \<Rightarrow> 'm option \<Rightarrow> 'm option \<Rightarrow> nat \<Rightarrow> 'w \<Rightarrow> error + tensor \<times> 'w"
  correct_gradient :: "'m \<Rightarrow> 'm option \<Rightarrow> 'm option \<Rightarrow> nat \<Rightarrow> 'w \<Rightarrow> error + 'w"
  post_process :: "'m \<Rightarrow> 'w \<Rightarrow> error + 'w"
  set_posterior_model_after_inference :: "'m \<Rightarrow> 'm option \<Rightarrow> 'm option \<Rightarrow> 'w \<Rightarrow> error + 'w"

text \<open>
  The optimizer wrapper and torch. \<open>new_optimizer\<close> is the constructor
  \<^verbatim>\<open>ProbabilisticOptimizer(model, optimizer, **opt_params)\<close>; \<open>has_optimizer\<close> is the
  truth value of the attribute \<^verbatim>\<open>prob_opt.optimizer\<close>, false for a model without
  learnable parameters. \<open>posterior_model_of\<close> reads \<^verbatim>\<open>joint_model.posterior_model\<close>.
\<close>

record ('w, 'm, 'o) collaborators =
  new_optimizer :: "'m option \<Rightarrow> 'w \<Rightarrow> error + 'o"
  has_optimizer :: "'o \<Rightarrow> bool"
  zero_grad :: "'o \<Rightarrow> 'w \<Rightarrow> error + 'w"
  update :: "'o \<Rightarrow> 'w \<Rightarrow> error + 'w"
  backward :: "tensor \<Rightarrow> 'w \<Rightarrow> error + 'w"
  posterior_model_of :: "'m \<Rightarrow> 'w \<Rightarrow> 'm option"

text \<open>
  The calls the loop makes on its collaborators, in the order made, and the warnings it
  emits. The log is instrumentation: it records that a call happened and returned.
\<close>

datatype 'o event = ZeroGrad 'o | Backward tensor | CorrectGradient | Update 'o | Warn string

record ('w, 'o) run_state =
  world :: 'w
  loss_list :: "tensor list"
  diagnostics :: "string \<rightharpoonup> tensor list"
  trace :: "'o event list"

definition call_zero_grad ::
  "('w, 'm, 'o) collaborators \<Rightarrow> 'o \<Rightarrow> ('w, 'o) run_state \<Rightarrow> error + ('w, 'o) run_state" where
  "call_zero_grad col opt s =
     ebind (zero_grad col opt (world s))
       (\<lambda>w. Inr (s\<lparr>world := w, trace := trace s @ [ZeroGrad opt]\<rparr>))"

definition call_update ::
  "('w, 'm, 'o) collaborators \<Rightarrow> 'o \<Rightarrow> ('w, 'o) run_state \<Rightarrow> error + ('w, 'o) run_state" where
  "call_update col opt s =
     ebind (update col opt (world s))
       (\<lambda>w. Inr (s\<lparr>world := w, trace := trace s @ [Update opt]\<rparr>))"

definition call_backward ::
  "('w, 'm, 'o) collaborators \<Rightarrow> tensor \<Rightarrow> ('w, 'o) run_state \<Rightarrow> error + ('w, 'o) run_state" where
  "call_backward col loss s =
     ebind (backward col loss (world s))
       (\<lambda>w. Inr (s\<lparr>world := w, trace := trace s @ [Backward loss]\<rparr>))"

definition call_correct_gradient ::
  "('w, 'm) inference_method \<Rightarrow> 'm \<Rightarrow> 'm option \<Rightarrow> 'm option \<Rightarrow> nat \<Rightarrow>
   ('w, 'o) run_state \<Rightarrow> error + ('w, 'o) run_state" where
  "call_correct_gradient im joint_model posterior_model sampler_model number_samples s =
     ebind (correct_gradient im joint_model posterior_model sampler_model number_samples (world s))
       (\<lambda>w. Inr (s\<lparr>world := w, trace := trace s @ [CorrectGradient]\<rparr>))"

subsection \<open>\<^verbatim>\<open>perform_inference\<close>\<close>

text \<open>
  The nested function \<^verbatim>\<open>append_prob_optimizer\<close>: construct the wrapper, keep it only when
  its \<^verbatim>\<open>optimizer\<close> attribute is truthy.
\<close>

definition append_prob_optimizer ::
  "('w, 'm, 'o) collaborators \<Rightarrow> 'w \<Rightarrow> 'm option \<Rightarrow> 'o list \<Rightarrow> error + 'o list" where
  "append_prob_optimizer col w model optimizers_list =
     ebind (new_optimizer col model w)
       (\<lambda>prob_opt. if has_optimizer col prob_opt
                    then Inr (optimizers_list @ [prob_opt])
                    else Inr optimizers_list)"

text \<open>Lines 75 to 81: the optimizer list, one conditional append per learnable role.\<close>

definition perform_inference_optimizers ::
  "('w, 'm, 'o) collaborators \<Rightarrow> ('w, 'm) inference_method \<Rightarrow> 'w \<Rightarrow>
   'm \<Rightarrow> 'm option \<Rightarrow> 'm option \<Rightarrow> error + 'o list" where
  "perform_inference_optimizers col im w joint_model posterior_model sampler_model =
     ebind (if learnable_posterior im then append_prob_optimizer col w posterior_model []
            else Inr [])
       (\<lambda>l1. ebind (if learnable_model im then append_prob_optimizer col w (Some joint_model) l1
                     else Inr l1)
       (\<lambda>l2. if learnable_sampler im then append_prob_optimizer col w sampler_model l2
              else Inr l2))"

text \<open>
  Lines 88 to 100: the body of the loop at iteration \<open>iteration\<close>. In the finite branch
  the loss is appended at line 97 (flattened) and again at line 100, which is outside the
  \<^verbatim>\<open>if\<close>; \<^verbatim>\<open>optimizers_list[0]\<close> raises \<^verbatim>\<open>IndexError\<close> on the empty list.
\<close>

definition perform_inference_iteration ::
  "('w, 'm, 'o) collaborators \<Rightarrow> ('w, 'm) inference_method \<Rightarrow>
   'm \<Rightarrow> 'm option \<Rightarrow> 'm option \<Rightarrow> nat \<Rightarrow> int \<Rightarrow> 'o list \<Rightarrow>
   nat \<Rightarrow> ('w, 'o) run_state \<Rightarrow> error + ('w, 'o) run_state" where
  "perform_inference_iteration col im joint_model posterior_model sampler_model number_samples
       pretraining_iterations optimizers_list iteration s =
     ebind (compute_loss im joint_model posterior_model sampler_model number_samples (world s))
       (\<lambda>(loss, w1).
          if all_isfinite loss then
            ebind (efold (call_zero_grad col) optimizers_list (s\<lparr>world := w1\<rparr>))
              (\<lambda>s2. ebind (call_backward col loss s2)
              (\<lambda>s3. ebind (call_correct_gradient im joint_model posterior_model sampler_model
                              number_samples s3)
              (\<lambda>s4. case optimizers_list of
                       [] \<Rightarrow> Inl IndexError
                     | opt0 # rest \<Rightarrow>
                         ebind (call_update col opt0 s4)
                           (\<lambda>s5. ebind (if int iteration > pretraining_iterations
                                         then efold (call_update col) rest s5
                                         else Inr s5)
                           (\<lambda>s6. Inr (s6\<lparr>loss_list := loss_list s6 @ [flatten loss] @ [loss]\<rparr>))))))
          else
            Inr (s\<lparr>world := w1,
                   trace := trace s @ [Warn ''Numerical error, skipping sample''],
                   loss_list := loss_list s @ [loss]\<rparr>))"

text \<open>Lines 87 to 100: \<^verbatim>\<open>for iteration in range(number_iterations)\<close>.\<close>

definition perform_inference_loop ::
  "('w, 'm, 'o) collaborators \<Rightarrow> ('w, 'm) inference_method \<Rightarrow>
   'm \<Rightarrow> 'm option \<Rightarrow> 'm option \<Rightarrow> nat \<Rightarrow> int \<Rightarrow> 'o list \<Rightarrow>
   int \<Rightarrow> ('w, 'o) run_state \<Rightarrow> error + ('w, 'o) run_state" where
  "perform_inference_loop col im joint_model posterior_model sampler_model number_samples
       pretraining_iterations optimizers_list number_iterations s =
     efold (perform_inference_iteration col im joint_model posterior_model sampler_model
              number_samples pretraining_iterations optimizers_list)
       [0 ..< nat number_iterations] s"

text \<open>
  Lines 70 to 106 of \<^verbatim>\<open>perform_inference\<close>. The lines before resolve the arguments
  (wrapping a single variable, the default strategy, the posterior and sampler fallbacks) and
  mark the observed variables; the embedding starts from their outcome: the joint model, the
  strategy, and the posterior and sampler models, either of which may be \<^verbatim>\<open>None\<close>.
  \<^verbatim>\<open>np.array(loss_list)\<close> is kept as the list it is built from.
\<close>

definition perform_inference ::
  "('w, 'm, 'o) collaborators \<Rightarrow> ('w, 'm) inference_method \<Rightarrow>
   'm \<Rightarrow> 'm option \<Rightarrow> 'm option \<Rightarrow> int \<Rightarrow> nat \<Rightarrow> int \<Rightarrow>
   ('w, 'o) run_state \<Rightarrow> error + ('w, 'o) run_state" where
  "perform_inference col im joint_model posterior_model sampler_model number_iterations
       number_samples pretraining_iterations s0 =
     ebind (perform_inference_optimizers col im (world s0) joint_model posterior_model
              sampler_model)
       (\<lambda>optimizers_list.
     ebind (check_model_compatibility im joint_model posterior_model sampler_model (world s0))
       (\<lambda>_.
     ebind (perform_inference_loop col im joint_model posterior_model sampler_model
              number_samples pretraining_iterations optimizers_list number_iterations
              (s0\<lparr>loss_list := []\<rparr>))
       (\<lambda>s1.
     let s2 = s1\<lparr>diagnostics := (diagnostics s1)(''loss curve'' \<mapsto> loss_list s1)\<rparr> in
     ebind (post_process im joint_model (world s2))
       (\<lambda>w3.
     if posterior_model_of col joint_model w3 = None \<and> learnable_posterior im
     then ebind (set_posterior_model_after_inference im joint_model posterior_model
                   sampler_model w3)
            (\<lambda>w4. Inr (s2\<lparr>world := w4\<rparr>))
     else Inr (s2\<lparr>world := w3\<rparr>)))))"

subsection \<open>Float and tensor arithmetic\<close>

text \<open>
  The operations of IEEE arithmetic that the particle methods use, on exact reals and the
  three special values. numpy scalars and torch tensors do not raise on a division by zero:
  they yield an infinity or \<^verbatim>\<open>nan\<close>.
\<close>

fun fsign :: "fval \<Rightarrow> int" where
  "fsign (Val a) = (if a < 0 then - 1 else if a = 0 then 0 else 1)"
| "fsign PosInf = 1"
| "fsign NegInf = - 1"
| "fsign NaN = 0"

definition of_sign :: "int \<Rightarrow> fval" where
  "of_sign s = (if s = 0 then NaN else if 0 < s then PosInf else NegInf)"

fun fadd :: "fval \<Rightarrow> fval \<Rightarrow> fval" where
  "fadd (Val a) (Val b) = Val (a + b)"
| "fadd NaN y = NaN"
| "fadd x NaN = NaN"
| "fadd PosInf NegInf = NaN"
| "fadd NegInf PosInf = NaN"
| "fadd PosInf y = PosInf"
| "fadd x PosInf = PosInf"
| "fadd NegInf y = NegInf"
| "fadd x NegInf = NegInf"

fun fmul :: "fval \<Rightarrow> fval \<Rightarrow> fval" where
  "fmul (Val a) (Val b) = Val (a * b)"
| "fmul NaN y = NaN"
| "fmul x NaN = NaN"
| "fmul x y = of_sign (fsign x * fsign y)"

fun fdiv :: "fval \<Rightarrow> fval \<Rightarrow> fval" where
  "fdiv (Val a) (Val b) = (if b = 0 then of_sign (fsign (Val a)) else Val (a / b))"
| "fdiv NaN y = NaN"
| "fdiv x NaN = NaN"
| "fdiv (Val a) y = Val 0"
| "fdiv x (Val b) = of_sign (fsign x * (if b < 0 then - 1 else 1))"
| "fdiv x y = NaN"

fun fexp :: "fval \<Rightarrow> fval" where
  "fexp (Val a) = Val (exp a)"
| "fexp PosInf = PosInf"
| "fexp NegInf = Val 0"
| "fexp NaN = NaN"

text \<open>\<^verbatim>\<open>np.log\<close> of a list length.\<close>

definition np_log :: "nat \<Rightarrow> fval" where
  "np_log n = (if n = 0 then NegInf else Val (ln (real n)))"

text \<open>
  \<^verbatim>\<open>np.median\<close>: the middle of the sorted values, the mean of the two middle ones for an
  even count, \<^verbatim>\<open>nan\<close> for an empty array.
\<close>

definition median :: "real list \<Rightarrow> fval" where
  "median xs =
     (let s = sort xs; n = length xs in
      if n = 0 then NaN
      else if odd n then Val (s ! (n div 2))
      else Val ((s ! (n div 2 - 1) + s ! (n div 2)) / 2))"

text \<open>
  An elementwise operation on two one-dimensional tensors with torch's broadcasting: equal
  lengths, or one operand of length one; any other pair of lengths raises.
\<close>

definition broadcast2 :: "('a \<Rightarrow> 'b \<Rightarrow> 'c) \<Rightarrow> 'a list \<Rightarrow> 'b list \<Rightarrow> error + 'c list" where
  "broadcast2 f xs ys =
     (if length xs = length ys then Inr (map2 f xs ys)
      else if length xs = 1 then Inr (map (f (hd xs)) ys)
      else if length ys = 1 then Inr (map (\<lambda>x. f x (hd ys)) xs)
      else Inl RuntimeError)"

text \<open>
  Python's \<^verbatim>\<open>sum\<close> of a list of tensors: \<^verbatim>\<open>0 + t0 + t1 + ...\<close> from the left. The
  sum of no tensors is the integer 0, which is not a tensor.
\<close>

fun tensor_sum_from :: "fval list \<Rightarrow> fval list list \<Rightarrow> error + fval list" where
  "tensor_sum_from acc [] = Inr acc"
| "tensor_sum_from acc (t # ts) = ebind (broadcast2 fadd acc t) (\<lambda>acc'. tensor_sum_from acc' ts)"

definition tensor_sum :: "fval list list \<Rightarrow> error + fval list" where
  "tensor_sum ts =
     (case ts of
        [] \<Rightarrow> Inl TypeError
      | t # rest \<Rightarrow> tensor_sum_from (map (fadd (Val 0)) t) rest)"

subsection \<open>\<^verbatim>\<open>SteinVariationalGradientDescent\<close>\<close>

text \<open>
  A particle is a model of deterministic variables. \<open>ident\<close> is the identity of the
  Python object (what \<^verbatim>\<open>is not\<close> compares), \<open>vars\<close> the result of
  \<^verbatim>\<open>particle.flatten()\<close>. A variable carries its value tensor, with finite elements, and
  the gradient tensor \<^verbatim>\<open>variable.value.grad\<close>.
\<close>

record svar =
  var_value :: "real list"
  var_grad :: "fval list"

record particle =
  ident :: nat
  vars :: "svar list"

record svgd =
  bandwidth :: fval

text \<open>The constructor: \<^verbatim>\<open>self.bandwidth = 0.01\<close>.\<close>

definition SVGD_init :: svgd where
  "SVGD_init = \<lparr>bandwidth = Val (1 / 100)\<rparr>"

text \<open>
  \<^verbatim>\<open>self.deviation\<close>: \<^verbatim>\<open>np.sum(((to_tensor(x) - to_tensor(y))**2).detach().numpy())\<close>.
\<close>

definition deviation :: "real list \<Rightarrow> real list \<Rightarrow> error + real" where
  "deviation x y = ebind (broadcast2 (\<lambda>a b. a - b) x y) (\<lambda>d. Inr (sum_list (map (\<lambda>z. z ^ 2) d)))"

text \<open>\<^verbatim>\<open>self.kernel\<close>: \<^verbatim>\<open>np.exp(-d/(2*bw))\<close>.\<close>

definition kernel :: "real \<Rightarrow> fval \<Rightarrow> fval" where
  "kernel d bw = fexp (fdiv (Val (- d)) (fmul (Val 2) bw))"

text \<open>
  The expression that both methods evaluate for a pair of particles:
  \<^verbatim>\<open>sum([self.deviation(variable1.value, variable2.value) for variable1, variable2 in zip(particle1.flatten(), particle2.flatten())])\<close>.
\<close>

definition sum_deviation :: "particle \<Rightarrow> particle \<Rightarrow> error + real" where
  "sum_deviation particle1 particle2 =
     ebind (emap (\<lambda>(variable1, variable2). deviation (var_value variable1) (var_value variable2))
              (zip (vars particle1) (vars particle2)))
       (\<lambda>ds. Inr (sum_list ds))"

definition update_bandwidth :: "svgd \<Rightarrow> particle list \<Rightarrow> error + svgd" where
  "update_bandwidth self posterior_model =
     ebind (emap (\<lambda>(particle1, particle2).
                    ebind (sum_deviation particle1 particle2) (\<lambda>d. Inr (sqrt d)))
              (filter (\<lambda>(particle1, particle2). ident particle1 \<noteq> ident particle2)
                 (List.product posterior_model posterior_model)))
       (\<lambda>distances.
          let bw = fdiv (fmul (Val 2) (fmul (median distances) (median distances)))
                        (np_log (length posterior_model))
          in Inr (self\<lparr>bandwidth := bw\<rparr>))"

definition correct_gradient_svgd :: "svgd \<Rightarrow> particle list \<Rightarrow> error + svgd \<times> particle list" where
  "correct_gradient_svgd self0 posterior_model =
     ebind (update_bandwidth self0 posterior_model) (\<lambda>self.
     let gradients = map (\<lambda>particle. map var_grad (vars particle)) posterior_model in
     ebind (emap (\<lambda>particle2.
              emap (\<lambda>particle1.
                ebind (sum_deviation particle1 particle2) (\<lambda>d. Inr (kernel d (bandwidth self))))
              posterior_model)
            posterior_model) (\<lambda>kernel_matrix.
     ebind (emap (\<lambda>(particle_index2, particle2).
              emap (\<lambda>(particle_index1, particle1).
                emap (\<lambda>(variable1, variable2).
                  ebind (broadcast2 (\<lambda>a b. a - b) (var_value variable1) (var_value variable2)) (\<lambda>d.
                  ebind (nth_err kernel_matrix particle_index1) (\<lambda>row.
                  ebind (nth_err row particle_index2) (\<lambda>k.
                  Inr (map (\<lambda>z. fdiv (fmul (Val (- z)) k) (bandwidth self)) d)))))
                (zip (vars particle1) (vars particle2)))
              (enumerate 0 posterior_model))
            (enumerate 0 posterior_model)) (\<lambda>interaction_matrix.
     ebind (emap (\<lambda>(particle_index, particle).
              ebind (emap (\<lambda>(variable_index, variable).
                ebind (emap (\<lambda>(other_index, other_gradient).
                         ebind (nth_err kernel_matrix particle_index) (\<lambda>krow.
                         ebind (nth_err krow other_index) (\<lambda>k.
                         ebind (nth_err other_gradient variable_index) (\<lambda>g.
                         ebind (nth_err interaction_matrix particle_index) (\<lambda>irow.
                         ebind (nth_err irow other_index) (\<lambda>ivars.
                         ebind (nth_err ivars variable_index) (\<lambda>i.
                         broadcast2 fadd (map (fmul k) g) i)))))))
                       (enumerate 0 gradients)) (\<lambda>terms.
                ebind (tensor_sum terms) (\<lambda>new_grad.
                Inr (variable\<lparr>var_grad := new_grad\<rparr>))))
                (enumerate 0 (vars particle)))
              (\<lambda>new_vars. Inr (particle\<lparr>vars := new_vars\<rparr>)))
            (enumerate 0 posterior_model)) (\<lambda>new_model.
     Inr (self, new_model)))))"

text \<open>
  The gradient the specification describes for particle \<open>i\<close> and variable \<open>v\<close>: the sum
  over all particles \<open>j\<close> of \<open>k(i,j)\<close> times the raw gradient of \<open>j\<close> plus
  \<open>-(value_i - value_j) \<cdot> k(i,j) / bandwidth\<close>, for scalar variables and a finite positive
  bandwidth. It follows the specification's words, for comparison with
  \<open>correct_gradient_svgd\<close>.
\<close>

definition spec_stein_gradient ::
  "real \<Rightarrow> (nat \<Rightarrow> nat \<Rightarrow> real) \<Rightarrow> real list \<Rightarrow> real list \<Rightarrow> nat \<Rightarrow> real" where
  "spec_stein_gradient bw k values raw_gradients i =
     (\<Sum>j\<leftarrow>[0 ..< length values].
         k i j * raw_gradients ! j + (- (values ! i - values ! j) * k i j / bw))"

text \<open>
  The distance the specification names: the square root of the summed squared per-variable
  differences of two particles. \<open>same_shapes\<close> says that corresponding variables of any two
  particles of a list have value tensors of the same length, so that no subtraction
  broadcasts or raises.
\<close>

definition pairwise_distance :: "particle \<Rightarrow> particle \<Rightarrow> real" where
  "pairwise_distance p q =
     sqrt (\<Sum>(u, v)\<leftarrow>zip (vars p) (vars q).
             \<Sum>(a, b)\<leftarrow>zip (var_value u) (var_value v). (a - b) ^ 2)"

definition same_shapes :: "particle list \<Rightarrow> bool" where
  "same_shapes pm =
     (\<forall>p\<in>set pm. \<forall>q\<in>set pm.
        list_all (\<lambda>(u, v). length (var_value u) = length (var_value v)) (zip (vars p) (vars q)))"

text \<open>The distances \<^verbatim>\<open>update_bandwidth\<close> collects: ordered pairs of non-identical particles.\<close>

definition pairwise_distances :: "particle list \<Rightarrow> real list" where
  "pairwise_distances pm =
     map (\<lambda>(p, q). pairwise_distance p q)
       (filter (\<lambda>(p, q). ident p \<noteq> ident q) (List.product pm pm))"

subsection \<open>\<^verbatim>\<open>WassersteinVariationalGradientDescent\<close>\<close>

text \<open>
  The attributes of the strategy object that the two methods below read or write. The cost
  function and the deviation statistics are the constructor's pluggable arguments: the cost
  of a particle value against a batch of samples is a tensor with one entry per draw, and the
  statistics combine the per-variable costs into one such tensor. \<open>weights\<close> is unset
  until \<^verbatim>\<open>post_process\<close> has run.
\<close>

record ('s, 'v) wvgd =
  wvgd_sampler_model :: "'s list"
  biased :: bool
  number_post_samples :: nat
  cost_function :: "'v \<Rightarrow> 'v \<Rightarrow> real list"
  deviation_statistics :: "real list list \<Rightarrow> real list"
  weights :: "real list option"

text \<open>
  The model layer as these methods use it; a sample is a dictionary of type \<open>'d\<close>, a
  sampler has type \<open>'s\<close>, a particle \<open>'p\<close>, a variable \<open>'x\<close>. What a sampler draws is
  whatever \<open>sampler_get_sample\<close> returns. \<open>importance_weights\<close> is
  \<^verbatim>\<open>joint_model.get_importance_weights(...).flatten()\<close>, with finite entries, and
  \<open>log_normalizer\<close> the second component it returns under
  \<^verbatim>\<open>give_normalization=True\<close>, a finite number. \<open>zip_dict\<close> pairs the values of two
  dictionaries by key, in order. \<^verbatim>\<open>detach()\<close> changes no value.
\<close>

record ('s, 'p, 'd, 'x, 'v) model_layer =
  sampler_get_sample :: "'s \<Rightarrow> nat \<Rightarrow> 'd"
  particle_get_sample :: "'p \<Rightarrow> nat \<Rightarrow> 'd"
  importance_weights :: "'d \<Rightarrow> 's \<Rightarrow> real list"
  log_normalizer :: "'d \<Rightarrow> 's \<Rightarrow> real"
  reassign_samples :: "'d \<Rightarrow> 's \<Rightarrow> 'p \<Rightarrow> 'd"
  zip_dict :: "'d \<Rightarrow> 'd \<Rightarrow> ('x \<times> 'v \<times> 'v) list"





text \<open>
  \<^verbatim>\<open>post_process\<close>. \<^verbatim>\<open>log_weights.max()\<close> raises on a tensor without elements; the
  \<^verbatim>\<open>print\<close> of line 259 is left out.
\<close>

definition post_process_wvgd ::
  "('s, 'p, 'd, 'x, 'v) model_layer \<Rightarrow> ('s, 'v) wvgd \<Rightarrow> error + ('s, 'v) wvgd" where
  "post_process_wvgd ml self =
     (let sample_list = map (\<lambda>sampler. sampler_get_sample ml sampler (number_post_samples self))
                          (wvgd_sampler_model self);
          log_weights = map (\<lambda>(sampler, s). log_normalizer ml s sampler)
                          (zip (wvgd_sampler_model self) sample_list)
      in if log_weights = [] then Inl RuntimeError
         else
           let alpha = Max (set log_weights);
               un_weights = map (\<lambda>l. exp (l - alpha)) log_weights
           in Inr (self\<lparr>weights := Some (map (\<lambda>u. u / sum_list un_weights) un_weights)\<rparr>))"

subsection \<open>\<^verbatim>\<open>MAP\<close>\<close>

text \<open>
  A variable of a model: its name, the class it is an instance of as far as the
  \<^verbatim>\<open>isinstance\<close> tests of this module tell, whether it is observed, whether it is
  learnable, and the data it holds if it is deterministic.
\<close>

datatype var_class = Deterministic | Root | Random

record 'v variable =
  var_name :: string
  var_class :: var_class
  is_observed :: bool
  learnable :: bool
  var_data :: "'v option"

text \<open>
  Modelled from the spec: the constructor \<^verbatim>\<open>DeterministicVariable(data, name, learnable)\<close>
  of \<^verbatim>\<open>brancher.standard_variables\<close> is not in this module; it builds a point-mass
  (deterministic) variable holding \<open>data\<close>, not observed.
\<close>

definition DeterministicVariable :: "'v \<Rightarrow> string \<Rightarrow> bool \<Rightarrow> 'v variable" where
  "DeterministicVariable data name_arg learnable_arg =
     \<lparr>var_name = name_arg, var_class = Deterministic, is_observed = False,
      learnable = learnable_arg, var_data = Some data\<rparr>"

text \<open>\<^verbatim>\<open>isinstance(variable, (DeterministicVariable, RootVariable))\<close>\<close>

definition deterministic_or_root :: "'v variable \<Rightarrow> bool" where
  "deterministic_or_root variable = (var_class variable = Deterministic \<or> var_class variable = Root)"

text \<open>
  \<^verbatim>\<open>MAP.construct_posterior_model\<close>. \<open>get_sample\<close> is
  \<^verbatim>\<open>joint_model._get_sample(1, observed=False)\<close>, a dictionary from variables to values
  in its order; \<open>first_draw\<close> is the indexing \<^verbatim>\<open>value[0, 0, :]\<close>, which raises on a
  tensor of fewer than three dimensions. A \<^verbatim>\<open>ProbabilisticModel\<close> built from a list of
  variables without parents is that list.
\<close>

definition construct_posterior_model_MAP ::
  "('m \<Rightarrow> ('v variable \<times> 'v) list) \<Rightarrow> ('v \<Rightarrow> error + 'v) \<Rightarrow> 'm \<Rightarrow> error + 'v variable list" where
  "construct_posterior_model_MAP get_sample first_draw joint_model =
     (let test_sample = get_sample joint_model in
      emap (\<lambda>(variable, value).
              ebind (first_draw value)
                (\<lambda>v. Inr (DeterministicVariable v (var_name variable) True)))
        (filter (\<lambda>(variable, value). \<not> is_observed variable \<and> \<not> deterministic_or_root variable)
           test_sample))"

text \<open>
  \<^verbatim>\<open>MAP.check_model_compatibility\<close>: the assertion over \<^verbatim>\<open>posterior_model.flatten()\<close>.
\<close>

definition check_model_compatibility_MAP ::
  "('pm \<Rightarrow> 'v variable list) \<Rightarrow> 'pm \<Rightarrow> error + unit" where
  "check_model_compatibility_MAP flatten_model posterior_model =
     (if list_all deterministic_or_root (flatten_model posterior_model) then Inr ()
      else Inl AssertionError)"

subsection \<open>A small concrete run\<close>

text \<open>
  A concrete world for evaluating the loop: the world is one integer parameter, every
  optimizer step decrements it, models and optimizers are numbered, an optimizer numbered 12
  or more has no parameters to manage, and the loss is \<^verbatim>\<open>nan\<close> while the parameter
  is negative.
\<close>

definition toy_collaborators :: "(int, nat, nat) collaborators" where
  "toy_collaborators =
     \<lparr>new_optimizer = (\<lambda>model w. case model of None \<Rightarrow> Inl AttributeError | Some k \<Rightarrow> Inr k),
      has_optimizer = (\<lambda>opt. opt < 12),
      zero_grad = (\<lambda>opt w. Inr w),
      update = (\<lambda>opt w. Inr (w - 1)),
      backward = (\<lambda>loss w. Inr w),
      posterior_model_of = (\<lambda>model w. None)\<rparr>"

definition toy_loss :: "int \<Rightarrow> tensor" where
  "toy_loss w = (if w < 0 then \<lparr>shape = [], elems = [NaN]\<rparr> else \<lparr>shape = [], elems = [Val 1]\<rparr>)"

definition toy_method :: "(int, nat) inference_method" where
  "toy_method =
     \<lparr>learnable_posterior = True,
      learnable_model = True,
      learnable_sampler = True,
      check_model_compatibility = (\<lambda>jm pm sm w. Inr ()),
      compute_loss = (\<lambda>jm pm sm n w. Inr (toy_loss w, w)),
      correct_gradient = (\<lambda>jm pm sm n w. Inr w),
      post_process = (\<lambda>jm w. Inr w),
      set_posterior_model_after_inference = (\<lambda>jm pm sm w. Inr w)\<rparr>"

text \<open>The same strategy over a model built to yield a \<^verbatim>\<open>nan\<close> loss always.\<close>

definition nan_method :: "(int, nat) inference_method" where
  "nan_method = toy_method\<lparr>compute_loss := (\<lambda>jm pm sm n w. Inr (\<lparr>shape = [], elems = [NaN]\<rparr>, w))\<rparr>"

text \<open>
  The same collaborators over a loss with no learnable parameter behind it, for which the
  backward pass raises as torch's does for a loss that requires no gradient; and the same
  strategy declaring neither the posterior nor the joint model learnable, so that no
  optimizer is built.
\<close>

definition frozen_collaborators :: "(int, nat, nat) collaborators" where
  "frozen_collaborators = toy_collaborators\<lparr>backward := (\<lambda>loss w. Inl RuntimeError)\<rparr>"

definition frozen_method :: "(int, nat) inference_method" where
  "frozen_method = toy_method\<lparr>learnable_posterior := False, learnable_model := False\<rparr>"

definition toy_state :: "int \<Rightarrow> (int, nat) run_state" where
  "toy_state w = \<lparr>world = w, loss_list = [], diagnostics = Map.empty, trace = []\<rparr>"

text \<open>
  Particles with one scalar variable each: two at the values 0 and 1 with zero gradients,
  and one at a given position and identity.
\<close>

definition particle_a :: particle where
  "particle_a = \<lparr>ident = 0, vars = [\<lparr>var_value = [0], var_grad = [Val 0]\<rparr>]\<rparr>"

definition particle_b :: particle where
  "particle_b = \<lparr>ident = 1, vars = [\<lparr>var_value = [1], var_grad = [Val 0]\<rparr>]\<rparr>"

definition particle_at :: "nat \<Rightarrow> real \<Rightarrow> particle" where
  "particle_at i x = \<lparr>ident = i, vars = [\<lparr>var_value = [x], var_grad = [Val 0]\<rparr>]\<rparr>"

text \<open>
  A model layer over numbered samplers and particles with one scalar variable: sampler
  \<open>s\<close> draws the value \<open>s\<close> every time, particle \<open>p\<close> sits at \<open>p\<close>, the importance
  weights of a batch are \<open>1/4, 3/4, ...\<close>, and the cost of a draw is its squared difference
  from the particle.
\<close>

definition toy_layer :: "(nat, nat, real list, string, real list) model_layer" where
  "toy_layer =
     \<lparr>sampler_get_sample = (\<lambda>s n. replicate n (real s)),
      particle_get_sample = (\<lambda>p n. replicate n (real p)),
      importance_weights = (\<lambda>d s. map (\<lambda>i. if i = 0 then 1 / 4 else 3 / 4) [0 ..< length d]),
      log_normalizer = (\<lambda>d s. real s),
      reassign_samples = (\<lambda>d s p. d),
      zip_dict = (\<lambda>d1 d2. [(''x'', d1, d2)])\<rparr>"

definition toy_wvgd :: "bool \<Rightarrow> (nat, real list) wvgd" where
  "toy_wvgd b =
     \<lparr>wvgd_sampler_model = [1],
      biased = b,
      number_post_samples = 3,
      cost_function = (\<lambda>x y. map (\<lambda>s. (hd x - s) ^ 2) y),
      deviation_statistics = (\<lambda>lst. case lst of [] \<Rightarrow> [] | t # ts \<Rightarrow> foldl (map2 (\<lambda>a b. a + b)) t ts),
      weights = None\<rparr>"

text \<open>A joint model of four variables and the sample drawn from it.\<close>

definition toy_variables :: "real variable list" where
  "toy_variables =
     [\<lparr>var_name = ''mu'', var_class = Random, is_observed = False, learnable = False, var_data = None\<rparr>,
      \<lparr>var_name = ''y'', var_class = Random, is_observed = True, learnable = False, var_data = None\<rparr>,
      \<lparr>var_name = ''c'', var_class = Root, is_observed = False, learnable = False, var_data = None\<rparr>,
      \<lparr>var_name = ''d'', var_class = Deterministic, is_observed = False, learnable = False, var_data = Some 2\<rparr>]"

definition toy_sample :: "unit \<Rightarrow> (real variable \<times> real) list" where
  "toy_sample joint_model = zip toy_variables [5, 6, 7, 2]"

section \<open>Properties\<close>


subsection \<open>The training loop\<close>

lemma ebind_Inr_iff: "ebind m f = Inr y \<longleftrightarrow> (\<exists>x. m = Inr x \<and> f x = Inr y)"
  by (cases m) auto

lemma iteration_nonfinite:
  assumes "compute_loss im jm pm sm n (world s) = Inr (l, w')" and "\<not> all_isfinite l"
  shows "perform_inference_iteration col im jm pm sm n pre opts it s =
           Inr (s\<lparr>world := w', trace := trace s @ [Warn ''Numerical error, skipping sample''],
                  loss_list := loss_list s @ [l]\<rparr>)"
  using assms by (simp add: perform_inference_iteration_def)

lemma efold_call_zero_grad_trace:
  "efold (call_zero_grad col) opts s = Inr s' \<Longrightarrow>
     trace s' = trace s @ map ZeroGrad opts \<and> loss_list s' = loss_list s \<and> diagnostics s' = diagnostics s"
proof (induction opts arbitrary: s)
  case Nil then show ?case by simp
next
  case (Cons a opts)
  then obtain s1 where 1: "call_zero_grad col a s = Inr s1" and 2: "efold (call_zero_grad col) opts s1 = Inr s'"
    by (auto simp: ebind_Inr_iff)
  from 1 have "trace s1 = trace s @ [ZeroGrad a]" "loss_list s1 = loss_list s" "diagnostics s1 = diagnostics s"
    by (auto simp: call_zero_grad_def ebind_Inr_iff)
  with Cons.IH[OF 2] show ?case by simp
qed

lemma efold_call_update_trace:
  "efold (call_update col) opts s = Inr s' \<Longrightarrow>
     trace s' = trace s @ map Update opts \<and> loss_list s' = loss_list s \<and> diagnostics s' = diagnostics s"
proof (induction opts arbitrary: s)
  case Nil then show ?case by simp
next
  case (Cons a opts)
  then obtain s1 where 1: "call_update col a s = Inr s1" and 2: "efold (call_update col) opts s1 = Inr s'"
    by (auto simp: ebind_Inr_iff)
  from 1 have "trace s1 = trace s @ [Update a]" "loss_list s1 = loss_list s" "diagnostics s1 = diagnostics s"
    by (auto simp: call_update_def ebind_Inr_iff)
  with Cons.IH[OF 2] show ?case by simp
qed

lemma iteration_finite_result:
  assumes cl: "compute_loss im jm pm sm n (world s) = Inr (l, w1)" and fin: "all_isfinite l"
    and it: "perform_inference_iteration col im jm pm sm n pre opts it s = Inr s'"
  shows "\<exists>opt0 rest. opts = opt0 # rest \<and>
           trace s' = trace s @ map ZeroGrad opts @ [Backward l, CorrectGradient, Update opt0]
                        @ (if int it > pre then map Update rest else []) \<and>
           loss_list s' = loss_list s @ [flatten l, l]"
proof -
  from it cl fin obtain s2 s3 s4 where
    z: "efold (call_zero_grad col) opts (s\<lparr>world := w1\<rparr>) = Inr s2" and
    b: "call_backward col l s2 = Inr s3" and
    c: "call_correct_gradient im jm pm sm n s3 = Inr s4" and
    r: "(case opts of [] \<Rightarrow> Inl IndexError
         | opt0 # rest \<Rightarrow> ebind (call_update col opt0 s4)
             (\<lambda>s5. ebind (if int it > pre then efold (call_update col) rest s5 else Inr s5)
             (\<lambda>s6. Inr (s6\<lparr>loss_list := loss_list s6 @ [flatten l] @ [l]\<rparr>)))) = Inr s'"
    by (auto simp: perform_inference_iteration_def ebind_Inr_iff)
  from r obtain opt0 rest where o: "opts = opt0 # rest" by (cases opts) auto
  from r o obtain s5 s6 where
    u: "call_update col opt0 s4 = Inr s5" and
    v: "(if int it > pre then efold (call_update col) rest s5 else Inr s5) = Inr s6" and
    e: "s' = s6\<lparr>loss_list := loss_list s6 @ [flatten l] @ [l]\<rparr>"
    by (auto simp: ebind_Inr_iff)
  have t2: "trace s2 = trace s @ map ZeroGrad opts" "loss_list s2 = loss_list s"
    using efold_call_zero_grad_trace[OF z] by simp_all
  have t3: "trace s3 = trace s2 @ [Backward l]" "loss_list s3 = loss_list s2"
    using b by (auto simp: call_backward_def ebind_Inr_iff)
  have t4: "trace s4 = trace s3 @ [CorrectGradient]" "loss_list s4 = loss_list s3"
    using c by (auto simp: call_correct_gradient_def ebind_Inr_iff)
  have t5: "trace s5 = trace s4 @ [Update opt0]" "loss_list s5 = loss_list s4"
    using u by (auto simp: call_update_def ebind_Inr_iff)
  have t6: "trace s6 = trace s5 @ (if int it > pre then map Update rest else [])"
      "loss_list s6 = loss_list s5"
    using v efold_call_update_trace[of col rest s5 s6] by (auto split: if_splits)
  show ?thesis using o e t2 t3 t4 t5 t6 by simp
qed

lemma toy_optimizers:
  "perform_inference_optimizers toy_collaborators toy_method w 10 (Some 11) (Some 12) = Inr [11, 10]"
  by (simp add: perform_inference_optimizers_def append_prob_optimizer_def toy_collaborators_def toy_method_def)

lemma toy_iteration_finite:
  "0 \<le> w \<Longrightarrow> perform_inference_iteration toy_collaborators toy_method 10 (Some 11) (Some 12) 3 0 [11, 10] 0 (toy_state w)
     = Inr \<lparr>world = w - 1, loss_list = [\<lparr>shape = [1], elems = [Val 1]\<rparr>, \<lparr>shape = [], elems = [Val 1]\<rparr>],
            diagnostics = Map.empty,
            trace = [ZeroGrad 11, ZeroGrad 10, Backward \<lparr>shape = [], elems = [Val 1]\<rparr>, CorrectGradient, Update 11]\<rparr>"
  by (simp add: perform_inference_iteration_def toy_collaborators_def toy_method_def toy_state_def
      toy_loss_def all_isfinite_def flatten_def call_zero_grad_def call_backward_def
      call_correct_gradient_def call_update_def)

lemma toy_iteration_nonfinite:
  "w < 0 \<Longrightarrow> perform_inference_iteration toy_collaborators toy_method 10 (Some 11) (Some 12) 3 0 [11, 10] 0 (toy_state w)
     = Inr \<lparr>world = w, loss_list = [\<lparr>shape = [], elems = [NaN]\<rparr>],
            diagnostics = Map.empty,
            trace = [Warn ''Numerical error, skipping sample'']\<rparr>"
  by (simp add: perform_inference_iteration_def toy_collaborators_def toy_method_def toy_state_def
      toy_loss_def all_isfinite_def)

text \<open>
  Claim C1. The claim asks that each iteration append its loss to the history exactly once,
  and only when the loss was finite and the step was taken. The loop does otherwise: with one
  iteration and a finite loss the history holds two entries (the flattened loss of line 97
  and the loss of line 100), and with a \<^verbatim>\<open>nan\<close> loss, where no step is taken, it
  holds one. In both runs the history is what lands under \<^verbatim>\<open>"loss curve"\<close>.
\<close>

theorem loss_appended_twice_when_finite:
  "perform_inference toy_collaborators toy_method 10 (Some 11) (Some 12) 1 3 0 (toy_state 5)
     = Inr \<lparr>world = 4,
            loss_list = [\<lparr>shape = [1], elems = [Val 1]\<rparr>, \<lparr>shape = [], elems = [Val 1]\<rparr>],
            diagnostics = [''loss curve'' \<mapsto> [\<lparr>shape = [1], elems = [Val 1]\<rparr>, \<lparr>shape = [], elems = [Val 1]\<rparr>]],
            trace = [ZeroGrad 11, ZeroGrad 10, Backward \<lparr>shape = [], elems = [Val 1]\<rparr>, CorrectGradient, Update 11]\<rparr>
   \<and> perform_inference toy_collaborators toy_method 10 (Some 11) (Some 12) 1 3 0 (toy_state (- 1))
     = Inr \<lparr>world = - 1,
            loss_list = [\<lparr>shape = [], elems = [NaN]\<rparr>],
            diagnostics = [''loss curve'' \<mapsto> [\<lparr>shape = [], elems = [NaN]\<rparr>]],
            trace = [Warn ''Numerical error, skipping sample'']\<rparr>"
proof -
  have s0: "(toy_state w)\<lparr>loss_list := []\<rparr> = toy_state w" for w
    by (simp add: toy_state_def)
  have a: "perform_inference_loop toy_collaborators toy_method 10 (Some 11) (Some 12) 3 0 [11, 10] 1 (toy_state 5)
      = perform_inference_iteration toy_collaborators toy_method 10 (Some 11) (Some 12) 3 0 [11, 10] 0 (toy_state 5)" 
    by (cases "perform_inference_iteration toy_collaborators toy_method 10 (Some 11) (Some 12) 3 0 [11, 10] 0 (toy_state 5)")
       (simp_all add: perform_inference_loop_def)
  have b: "perform_inference_loop toy_collaborators toy_method 10 (Some 11) (Some 12) 3 0 [11, 10] 1 (toy_state (- 1))
      = perform_inference_iteration toy_collaborators toy_method 10 (Some 11) (Some 12) 3 0 [11, 10] 0 (toy_state (- 1))" 
    by (cases "perform_inference_iteration toy_collaborators toy_method 10 (Some 11) (Some 12) 3 0 [11, 10] 0 (toy_state (- 1))")
       (simp_all add: perform_inference_loop_def)
  have c: "check_model_compatibility toy_method jm pm sm w = Inr ()"  
       "post_process toy_method jm w = Inr w"
       "set_posterior_model_after_inference toy_method jm pm sm w = Inr w"
       "learnable_posterior toy_method"
       "posterior_model_of toy_collaborators jm w = None" for jm pm sm w
    by (simp_all add: toy_method_def toy_collaborators_def)
  have w: "world (toy_state w) = w" for w by (simp add: toy_state_def)
  show ?thesis
    by (simp add: perform_inference_def toy_optimizers s0 a b c toy_iteration_finite toy_iteration_nonfinite w)
qed

lemma loop_nonfinite_general:
  fixes params :: "'w \<Rightarrow> 'p"
  assumes nf: "\<And>w. \<exists>l w'. compute_loss im jm pm sm n w = Inr (l, w') \<and> \<not> all_isfinite l
                         \<and> params w' = params w"
  shows "\<exists>s'. efold (perform_inference_iteration col im jm pm sm n pre opts) its s = Inr s'
           \<and> params (world s') = params (world s)
           \<and> trace s' = trace s @ replicate (length its) (Warn ''Numerical error, skipping sample'')
           \<and> length (loss_list s') = length (loss_list s) + length its"
proof (induction its arbitrary: s)
  case Nil
  show ?case by simp
next
  case (Cons it its)
  from nf[of "world s"] obtain l w' where
    cl: "compute_loss im jm pm sm n (world s) = Inr (l, w')" and
    l: "\<not> all_isfinite l" and p: "params w' = params (world s)"
    by blast
  define s1 where "s1 = s\<lparr>world := w', trace := trace s @ [Warn ''Numerical error, skipping sample''],
                  loss_list := loss_list s @ [l]\<rparr>"
  have step: "perform_inference_iteration col im jm pm sm n pre opts it s = Inr s1"
    unfolding s1_def by (rule iteration_nonfinite[OF cl l])
  from Cons.IH[of s1] obtain s' where
    r: "efold (perform_inference_iteration col im jm pm sm n pre opts) its s1 = Inr s'" and
    q: "params (world s') = params (world s1)"
       "trace s' = trace s1 @ replicate (length its) (Warn ''Numerical error, skipping sample'')"
       "length (loss_list s') = length (loss_list s1) + length its"
    by blast
  have "efold (perform_inference_iteration col im jm pm sm n pre opts) (it # its) s = Inr s'"
    using step r by simp
  moreover have "params (world s') = params (world s)"
    using q(1) p by (simp add: s1_def) 
  moreover have "trace s' = trace s @ replicate (length (it # its)) (Warn ''Numerical error, skipping sample'')"
    using q(2) by (simp add: s1_def)
  moreover have "length (loss_list s') = length (loss_list s) + length (it # its)"
    using q(3) by (simp add: s1_def)
  ultimately show ?case by blast
qed

text \<open>
  Claim C2. An iteration whose loss is not finite calls none of \<^verbatim>\<open>zero_grad\<close>,
  \<^verbatim>\<open>backward\<close>, \<^verbatim>\<open>correct_gradient\<close>, \<^verbatim>\<open>update\<close>: it returns normally, its
  only event is the warning, and the world is the one \<^verbatim>\<open>compute_loss\<close> left. Over a
  model that always yields a non-finite loss, a loop of any length \<open>k\<close> returns normally,
  logs \<open>k\<close> warnings and nothing else, and leaves unchanged every part \<open>params\<close> of the
  world that \<^verbatim>\<open>compute_loss\<close> itself does not write.
\<close>

theorem nonfinite_loss_skips_step:
  fixes params :: "'w \<Rightarrow> 'p"
  shows "(compute_loss im jm pm sm n (world s) = Inr (l, w') \<and> \<not> all_isfinite l \<longrightarrow>
            perform_inference_iteration col im jm pm sm n pre opts it s =
              Inr (s\<lparr>world := w',
                     trace := trace s @ [Warn ''Numerical error, skipping sample''],
                     loss_list := loss_list s @ [l]\<rparr>))
       \<and> ((\<forall>w. \<exists>l w'. compute_loss im jm pm sm n w = Inr (l, w') \<and> \<not> all_isfinite l
                       \<and> params w' = params w) \<longrightarrow>
            (\<exists>s'. perform_inference_loop col im jm pm sm n pre opts k s = Inr s'
                 \<and> params (world s') = params (world s)
                 \<and> trace s' = trace s @ replicate (nat k) (Warn ''Numerical error, skipping sample'')))"
proof (intro conjI impI)
  assume "compute_loss im jm pm sm n (world s) = Inr (l, w') \<and> \<not> all_isfinite l"
  then show "perform_inference_iteration col im jm pm sm n pre opts it s =
              Inr (s\<lparr>world := w',
                     trace := trace s @ [Warn ''Numerical error, skipping sample''],
                     loss_list := loss_list s @ [l]\<rparr>)"
    by (elim conjE) (rule iteration_nonfinite)
next
  assume a: "\<forall>w. \<exists>l w'. compute_loss im jm pm sm n w = Inr (l, w') \<and> \<not> all_isfinite l
                       \<and> params w' = params w"
  have "\<exists>s'. efold (perform_inference_iteration col im jm pm sm n pre opts) [0 ..< nat k] s = Inr s'
           \<and> params (world s') = params (world s)
           \<and> trace s' = trace s @ replicate (length [0 ..< nat k]) (Warn ''Numerical error, skipping sample'')
           \<and> length (loss_list s') = length (loss_list s) + length [0 ..< nat k]"
    by (rule loop_nonfinite_general) (use a in blast)
  then show "\<exists>s'. perform_inference_loop col im jm pm sm n pre opts k s = Inr s'
                 \<and> params (world s') = params (world s)
                 \<and> trace s' = trace s @ replicate (nat k) (Warn ''Numerical error, skipping sample'')"
    by (auto simp: perform_inference_loop_def)
qed

lemma nan_method_loss:
  "compute_loss nan_method jm pm sm n w = Inr (\<lparr>shape = [], elems = [NaN]\<rparr>, w)"
  by (simp add: nan_method_def toy_method_def)

lemma nan_not_finite: "\<not> all_isfinite \<lparr>shape = [], elems = [NaN]\<rparr>"
  by (simp add: all_isfinite_def)

theorem nonfinite_loss_skips_step_witness:
  "perform_inference_iteration toy_collaborators nan_method 10 (Some 11) (Some 12) 3 0 [11, 10] 0 (toy_state 5) =
      Inr \<lparr>world = 5, loss_list = [\<lparr>shape = [], elems = [NaN]\<rparr>], diagnostics = Map.empty,
           trace = [Warn ''Numerical error, skipping sample'']\<rparr>
   \<and> (\<exists>s'. perform_inference_loop toy_collaborators nan_method 10 (Some 11) (Some 12) 3 0 [11, 10] 4 (toy_state 5) = Inr s'
         \<and> world s' = 5
         \<and> trace s' = replicate 4 (Warn ''Numerical error, skipping sample''))"
proof -
  have h: "\<forall>w. \<exists>l w'. compute_loss nan_method 10 (Some 11) (Some 12) 3 w = Inr (l, w') \<and> \<not> all_isfinite l
                       \<and> (\<lambda>x. x) w' = (\<lambda>x. x) w"
    by (simp add: nan_method_loss nan_not_finite)
  have g: "compute_loss nan_method 10 (Some 11) (Some 12) 3 (world (toy_state 5)) = Inr (\<lparr>shape = [], elems = [NaN]\<rparr>, 5)
            \<and> \<not> all_isfinite \<lparr>shape = [], elems = [NaN]\<rparr>"
    by (simp add: nan_method_loss nan_not_finite toy_state_def)
  note t = nonfinite_loss_skips_step[of nan_method 10 "Some 11" "Some 12" 3 "toy_state 5"
      "\<lparr>shape = [], elems = [NaN]\<rparr>" 5 toy_collaborators 0 "[11, 10]" 0 "\<lambda>x. x" 4]
  from t g have 1: "perform_inference_iteration toy_collaborators nan_method 10 (Some 11) (Some 12) 3 0 [11, 10] 0 (toy_state 5) =
      Inr ((toy_state 5)\<lparr>world := 5, trace := trace (toy_state 5) @ [Warn ''Numerical error, skipping sample''],
             loss_list := loss_list (toy_state 5) @ [\<lparr>shape = [], elems = [NaN]\<rparr>]\<rparr>)"
    by blast
  from t h have 2: "\<exists>s'. perform_inference_loop toy_collaborators nan_method 10 (Some 11) (Some 12) 3 0 [11, 10] 4 (toy_state 5) = Inr s'
         \<and> world s' = world (toy_state 5)
         \<and> trace s' = trace (toy_state 5) @ replicate (nat 4) (Warn ''Numerical error, skipping sample'')"
    by blast
  have n4: "nat 4 = 4" by simp
  show ?thesis using 1 2 unfolding n4 by (simp add: toy_state_def)
qed

text \<open>
  Claim C3. The optimizer list holds, in the order posterior, joint model, sampler, the
  wrapper of each role whose flag is set and whose wrapper has an optimizer; a role whose
  flag is unset is not even constructed, and a role whose wrapper has no optimizer adds no
  entry.
\<close>

theorem optimizers_follow_flags:
  assumes "learnable_posterior im \<longrightarrow> new_optimizer col posterior_model w = Inr op"
    and "learnable_model im \<longrightarrow> new_optimizer col (Some joint_model) w = Inr oj"
    and "learnable_sampler im \<longrightarrow> new_optimizer col sampler_model w = Inr os"
  shows "perform_inference_optimizers col im w joint_model posterior_model sampler_model =
           Inr ((if learnable_posterior im \<and> has_optimizer col op then [op] else []) @
                (if learnable_model im \<and> has_optimizer col oj then [oj] else []) @
                (if learnable_sampler im \<and> has_optimizer col os then [os] else []))"
  using assms by (simp add: perform_inference_optimizers_def append_prob_optimizer_def)

theorem optimizers_follow_flags_witness:
  "perform_inference_optimizers toy_collaborators toy_method 5 10 (Some 11) (Some 12) = Inr [11, 10]
   \<and> perform_inference_optimizers toy_collaborators (toy_method\<lparr>learnable_posterior := False\<rparr>) 5 10 None (Some 12)
       = Inr [10]"
proof -
  have f: "learnable_posterior toy_method" "learnable_model toy_method" "learnable_sampler toy_method"
    by (simp_all add: toy_method_def)
  have n: "new_optimizer toy_collaborators (Some k) w = Inr k" for k w
    by (simp add: toy_collaborators_def)
  have h: "has_optimizer toy_collaborators 11" "has_optimizer toy_collaborators 10"
      "\<not> has_optimizer toy_collaborators 12"
    by (simp_all add: toy_collaborators_def)
  have 1: "perform_inference_optimizers toy_collaborators toy_method 5 10 (Some 11) (Some 12) = Inr [11, 10]"
    using optimizers_follow_flags[of toy_method toy_collaborators "Some 11" 5 11 10 10 "Some 12" 12] f n h
    by simp
  have 2: "perform_inference_optimizers toy_collaborators (toy_method\<lparr>learnable_posterior := False\<rparr>) 5 10 None (Some 12)
       = Inr [10]"
    using optimizers_follow_flags[of "toy_method\<lparr>learnable_posterior := False\<rparr>" toy_collaborators None 5 11 10 10 "Some 12" 12] f n h
    by simp
  show ?thesis using 1 2 by simp
qed








lemma iteration_empty_opts:
  assumes "perform_inference_iteration col im jm pm sm n pre [] it s = Inr s'"
  shows "\<exists>l. \<not> all_isfinite l \<and> loss_list s' = loss_list s @ [l]"
proof -
  from assms obtain l w1 where cl: "compute_loss im jm pm sm n (world s) = Inr (l, w1)"
    by (auto simp: perform_inference_iteration_def ebind_Inr_iff)
  have nf: "\<not> all_isfinite l"
  proof
    assume "all_isfinite l"
    from iteration_finite_result[OF cl this assms] show False by simp
  qed
  from iteration_nonfinite[OF cl nf, of col pre "[]" it] assms
  have "s' = s\<lparr>world := w1, trace := trace s @ [Warn ''Numerical error, skipping sample''],
                  loss_list := loss_list s @ [l]\<rparr>" by simp
  with nf show ?thesis by auto
qed

lemma loop_empty_opts:
  assumes "efold (perform_inference_iteration col im jm pm sm n pre []) its s = Inr s'"
  shows "\<exists>ls. loss_list s' = loss_list s @ ls \<and> length ls = length its \<and> (\<forall>l\<in>set ls. \<not> all_isfinite l)"
  using assms
proof (induction its arbitrary: s)
  case Nil then show ?case by simp
next
  case (Cons it its)
  then obtain s1 where 1: "perform_inference_iteration col im jm pm sm n pre [] it s = Inr s1"
    and 2: "efold (perform_inference_iteration col im jm pm sm n pre []) its s1 = Inr s'"
    by (auto simp: ebind_Inr_iff)
  from iteration_empty_opts[OF 1] obtain l where l: "\<not> all_isfinite l" "loss_list s1 = loss_list s @ [l]"
    by blast
  from Cons.IH[OF 2] obtain ls where ls: "loss_list s' = loss_list s1 @ ls" "length ls = length its"
       "\<forall>l\<in>set ls. \<not> all_isfinite l" by blast
  have "loss_list s' = loss_list s @ (l # ls)" "length (l # ls) = length (it # its)"
       "\<forall>x\<in>set (l # ls). \<not> all_isfinite x"
    using l ls by simp_all
  then show ?case by blast
qed

lemma perform_inference_loss_list:
  assumes o: "perform_inference_optimizers col im (world s0) jm pm sm = Inr opts"
    and r: "perform_inference col im jm pm sm k n pre s0 = Inr s'"
  shows "\<exists>s1. perform_inference_loop col im jm pm sm n pre opts k (s0\<lparr>loss_list := []\<rparr>) = Inr s1
           \<and> loss_list s' = loss_list s1
           \<and> diagnostics s' ''loss curve'' = Some (loss_list s1)"
proof -
  from r o obtain s1 where
    l: "perform_inference_loop col im jm pm sm n pre opts k (s0\<lparr>loss_list := []\<rparr>) = Inr s1"
    and rest: "(let s2 = s1\<lparr>diagnostics := (diagnostics s1)(''loss curve'' \<mapsto> loss_list s1)\<rparr> in
     ebind (post_process im jm (world s2))
       (\<lambda>w3.
     if posterior_model_of col jm w3 = None \<and> learnable_posterior im
     then ebind (set_posterior_model_after_inference im jm pm sm w3)
            (\<lambda>w4. Inr (s2\<lparr>world := w4\<rparr>))
     else Inr (s2\<lparr>world := w3\<rparr>))) = Inr s'"
    by (auto simp: perform_inference_def ebind_Inr_iff)
  from rest have "loss_list s' = loss_list s1 \<and> diagnostics s' ''loss curve'' = Some (loss_list s1)"
    by (auto simp: Let_def ebind_Inr_iff split: if_splits)
  with l show ?thesis by blast
qed

lemma iteration_empty_list_error:
  assumes cl: "compute_loss im jm pm sm n (world s) = Inr (l, w1)" and fin: "all_isfinite l"
  shows "perform_inference_iteration col im jm pm sm n pre [] it s =
           ebind (backward col l w1)
             (\<lambda>w2. ebind (correct_gradient im jm pm sm n w2) (\<lambda>w3. Inl IndexError))"
proof (cases "backward col l w1")
  case (Inl e)
  then show ?thesis using cl fin
    by (simp add: perform_inference_iteration_def call_backward_def)
next
  case (Inr w2)
  then show ?thesis using cl fin
    by (cases "correct_gradient im jm pm sm n w2")
       (simp_all add: perform_inference_iteration_def call_backward_def call_correct_gradient_def)
qed

lemma frozen_optimizers:
  "perform_inference_optimizers frozen_collaborators frozen_method w 10 (Some 11) (Some 12) = Inr []"
  by (simp add: perform_inference_optimizers_def append_prob_optimizer_def frozen_method_def
      frozen_collaborators_def toy_method_def toy_collaborators_def)

lemma frozen_iteration:
  "perform_inference_iteration frozen_collaborators frozen_method 10 (Some 11) (Some 12) 3 0 [] 0 (toy_state 5)
     = Inl RuntimeError"
  by (simp add: perform_inference_iteration_def frozen_method_def frozen_collaborators_def
      toy_method_def toy_collaborators_def toy_state_def toy_loss_def all_isfinite_def
      call_backward_def)

text \<open>
  Claim C10, as stated, fails: no optimizer is built, the loss of the first iteration is
  finite, and the iteration, and with it the run, ends in the \<^verbatim>\<open>RuntimeError\<close> of the
  backward pass of line 92, which comes before \<^verbatim>\<open>optimizers_list[0]\<close> of line 94; it
  does not end in \<^verbatim>\<open>IndexError\<close>.
\<close>

theorem empty_list_backward_error_counterexample:
  "perform_inference_optimizers frozen_collaborators frozen_method 5 10 (Some 11) (Some 12) = Inr []
   \<and> compute_loss frozen_method 10 (Some 11) (Some 12) 3 5 = Inr (\<lparr>shape = [], elems = [Val 1]\<rparr>, 5)
   \<and> all_isfinite \<lparr>shape = [], elems = [Val 1]\<rparr>
   \<and> perform_inference_iteration frozen_collaborators frozen_method 10 (Some 11) (Some 12) 3 0 [] 0 (toy_state 5)
        = Inl RuntimeError
   \<and> perform_inference frozen_collaborators frozen_method 10 (Some 11) (Some 12) 1 3 0 (toy_state 5)
        = Inl RuntimeError"
proof -
  have s0: "(toy_state 5)\<lparr>loss_list := []\<rparr> = toy_state 5" by (simp add: toy_state_def)
  have w: "world (toy_state 5) = 5" by (simp add: toy_state_def)
  have c: "check_model_compatibility frozen_method 10 (Some 11) (Some 12) 5 = Inr ()"
    by (simp add: frozen_method_def toy_method_def)
  have l: "perform_inference_loop frozen_collaborators frozen_method 10 (Some 11) (Some 12) 3 0 [] 1 (toy_state 5)
             = Inl RuntimeError"
    by (simp add: perform_inference_loop_def frozen_iteration)
  have 1: "compute_loss frozen_method 10 (Some 11) (Some 12) 3 5 = Inr (\<lparr>shape = [], elems = [Val 1]\<rparr>, 5)"
    by (simp add: frozen_method_def toy_method_def toy_loss_def)
  have 2: "all_isfinite \<lparr>shape = [], elems = [Val 1]\<rparr>" by (simp add: all_isfinite_def)
  have 3: "perform_inference frozen_collaborators frozen_method 10 (Some 11) (Some 12) 1 3 0 (toy_state 5)
        = Inl RuntimeError"
    by (simp add: perform_inference_def w frozen_optimizers c s0 l)
  show ?thesis using frozen_optimizers[of 5] 1 2 frozen_iteration 3 by blast
qed

text \<open>
  Claim C10, amended. With an empty optimizer list an iteration whose loss is finite never
  completes: it ends in the error of the backward pass if that raises, else in the error of
  the gradient correction if that raises, else in \<^verbatim>\<open>IndexError\<close> at the step of
  optimizer 0. A loop over the empty list that completes has appended one loss per
  iteration, every one of them non-finite (none at all when the iteration count is zero or
  negative). So a call of \<^verbatim>\<open>perform_inference\<close> that builds no optimizer and returns
  has a loss history of non-finite losses only, one per iteration.
\<close>

theorem empty_optimizer_list_raises:
  "(compute_loss im jm pm sm n (world s) = Inr (l, w1) \<and> all_isfinite l \<longrightarrow>
        perform_inference_iteration col im jm pm sm n pre [] it s =
          ebind (backward col l w1)
            (\<lambda>w2. ebind (correct_gradient im jm pm sm n w2) (\<lambda>w3. Inl IndexError))
        \<and> (\<exists>e. perform_inference_iteration col im jm pm sm n pre [] it s = Inl e))
   \<and> (compute_loss im jm pm sm n (world s) = Inr (l, w1) \<and> all_isfinite l \<and>
      backward col l w1 = Inr w2 \<and> correct_gradient im jm pm sm n w2 = Inr w3 \<longrightarrow>
        perform_inference_iteration col im jm pm sm n pre [] it s = Inl IndexError)
   \<and> (perform_inference_loop col im jm pm sm n pre [] k s = Inr s' \<longrightarrow>
        length (loss_list s') = length (loss_list s) + nat k \<and>
        (\<forall>l \<in> set (drop (length (loss_list s)) (loss_list s')). \<not> all_isfinite l))
   \<and> (perform_inference_optimizers col im (world s0) jm pm sm = Inr [] \<and>
      perform_inference col im jm pm sm k n pre s0 = Inr s'' \<longrightarrow>
        length (loss_list s'') = nat k \<and> (\<forall>l \<in> set (loss_list s''). \<not> all_isfinite l))"
proof (intro conjI impI)
  assume a: "perform_inference_optimizers col im (world s0) jm pm sm = Inr [] \<and>
      perform_inference col im jm pm sm k n pre s0 = Inr s''"
  then obtain s1 where
    l: "perform_inference_loop col im jm pm sm n pre [] k (s0\<lparr>loss_list := []\<rparr>) = Inr s1" and
    e: "loss_list s'' = loss_list s1"
    using perform_inference_loss_list[of col im s0 jm pm sm "[]" k n pre s''] by blast
  from loop_empty_opts[OF l[unfolded perform_inference_loop_def]] obtain ls where
    ls: "loss_list s1 = loss_list (s0\<lparr>loss_list := []\<rparr>) @ ls" "length ls = length [0 ..< nat k]"
        "\<forall>l\<in>set ls. \<not> all_isfinite l" by blast
  show "length (loss_list s'') = nat k" using ls e by simp
  show "\<forall>l \<in> set (loss_list s''). \<not> all_isfinite l" using ls e by simp
next
  assume "compute_loss im jm pm sm n (world s) = Inr (l, w1) \<and> all_isfinite l \<and>
      backward col l w1 = Inr w2 \<and> correct_gradient im jm pm sm n w2 = Inr w3"
  then show "perform_inference_iteration col im jm pm sm n pre [] it s = Inl IndexError"
    by (simp add: perform_inference_iteration_def call_backward_def call_correct_gradient_def)
next
  assume a: "perform_inference_loop col im jm pm sm n pre [] k s = Inr s'"
  from loop_empty_opts[OF a[unfolded perform_inference_loop_def]] obtain ls where
    ls: "loss_list s' = loss_list s @ ls" "length ls = length [0 ..< nat k]"
        "\<forall>l\<in>set ls. \<not> all_isfinite l" by blast
  show "length (loss_list s') = length (loss_list s) + nat k" using ls by simp
  show "\<forall>l \<in> set (drop (length (loss_list s)) (loss_list s')). \<not> all_isfinite l"
    using ls by simp
next
  assume a: "compute_loss im jm pm sm n (world s) = Inr (l, w1) \<and> all_isfinite l"
  then have eq: "perform_inference_iteration col im jm pm sm n pre [] it s =
          ebind (backward col l w1)
            (\<lambda>w2. ebind (correct_gradient im jm pm sm n w2) (\<lambda>w3. Inl IndexError))"
    by (intro iteration_empty_list_error) blast+
  show "perform_inference_iteration col im jm pm sm n pre [] it s =
          ebind (backward col l w1)
            (\<lambda>w2. ebind (correct_gradient im jm pm sm n w2) (\<lambda>w3. Inl IndexError))"
    by (rule eq)
  show "\<exists>e. perform_inference_iteration col im jm pm sm n pre [] it s = Inl e"
    unfolding eq
    by (cases "backward col l w1"; cases "correct_gradient im jm pm sm n (projr (backward col l w1))")
       auto
qed

lemma toy_calls:
  "zero_grad toy_collaborators opt w = Inr w"
  "update toy_collaborators opt w = Inr (w - 1)"
  "backward toy_collaborators l w = Inr w"
  "correct_gradient toy_method jm pm sm n w = Inr w"
  "compute_loss toy_method jm pm sm n w = Inr (toy_loss w, w)"
  by (simp_all add: toy_collaborators_def toy_method_def)

lemma toy_loss_finite: "0 \<le> w \<Longrightarrow> all_isfinite (toy_loss w)"
  by (simp add: toy_loss_def all_isfinite_def)


theorem empty_optimizer_list_raises_witness:
  "perform_inference_iteration toy_collaborators toy_method 10 (Some 11) (Some 12) 3 0 [] 0 (toy_state 5) = Inl IndexError
   \<and> perform_inference_iteration frozen_collaborators frozen_method 10 (Some 11) (Some 12) 3 0 [] 0 (toy_state 5)
        = Inl RuntimeError
   \<and> (\<exists>s'. perform_inference_loop toy_collaborators nan_method 10 (Some 11) (Some 12) 3 0 [] 2 (toy_state 5) = Inr s'
         \<and> length (loss_list s') = 2 \<and> (\<forall>l \<in> set (loss_list s'). \<not> all_isfinite l))
   \<and> perform_inference_optimizers toy_collaborators (nan_method\<lparr>learnable_posterior := False, learnable_model := False\<rparr>)
         5 10 (Some 11) (Some 12) = Inr []
   \<and> (\<exists>s'. perform_inference toy_collaborators (nan_method\<lparr>learnable_posterior := False, learnable_model := False\<rparr>)
                10 (Some 11) (Some 12) 2 3 0 (toy_state 5) = Inr s'
         \<and> length (loss_list s') = 2 \<and> (\<forall>l \<in> set (loss_list s'). \<not> all_isfinite l))"
proof -
  let ?im = "nan_method\<lparr>learnable_posterior := False, learnable_model := False\<rparr>"
  have no: "perform_inference_optimizers toy_collaborators ?im 5 10 (Some 11) (Some 12) = Inr []"
    by (simp add: perform_inference_optimizers_def append_prob_optimizer_def nan_method_def
        toy_method_def toy_collaborators_def)
  have "\<exists>s1. efold (perform_inference_iteration toy_collaborators ?im 10 (Some 11) (Some 12) 3 0 []) [0 ..< nat 2]
                  ((toy_state 5)\<lparr>loss_list := []\<rparr>) = Inr s1
           \<and> (\<lambda>x. x) (world s1) = (\<lambda>x. x) (world ((toy_state 5)\<lparr>loss_list := []\<rparr>))
           \<and> trace s1 = trace ((toy_state 5)\<lparr>loss_list := []\<rparr>)
                 @ replicate (length [0 ..< nat 2]) (Warn ''Numerical error, skipping sample'')
           \<and> length (loss_list s1) = length (loss_list ((toy_state 5)\<lparr>loss_list := []\<rparr>)) + length [0 ..< nat 2]"
    by (rule loop_nonfinite_general) (simp add: nan_method_def toy_method_def nan_not_finite)
  then obtain s1 where
    s1: "perform_inference_loop toy_collaborators ?im 10 (Some 11) (Some 12) 3 0 [] 2
           ((toy_state 5)\<lparr>loss_list := []\<rparr>) = Inr s1"
    unfolding perform_inference_loop_def by blast
  have run: "\<exists>s'. perform_inference toy_collaborators ?im 10 (Some 11) (Some 12) 2 3 0 (toy_state 5) = Inr s'"
    unfolding perform_inference_def
    using no s1 by (simp add: toy_state_def nan_method_def toy_method_def toy_collaborators_def Let_def)
  then obtain sf where
    sf: "perform_inference toy_collaborators ?im 10 (Some 11) (Some 12) 2 3 0 (toy_state 5) = Inr sf"
    by blast
  have w5: "world (toy_state 5) = 5" by (simp add: toy_state_def)
  have C: "length (loss_list sf) = nat 2 \<and> (\<forall>l \<in> set (loss_list sf). \<not> all_isfinite l)"
    by (rule mp[OF empty_optimizer_list_raises[where col = toy_collaborators and im = ?im
          and ?s0.0 = "toy_state 5" and jm = 10 and pm = "Some 11" and sm = "Some 12" and k = 2
          and n = 3 and pre = 0 and s'' = sf, THEN conjunct2, THEN conjunct2, THEN conjunct2]])
       (intro conjI, unfold w5, rule no, rule sf)
  have cl: "compute_loss toy_method 10 (Some 11) (Some 12) 3 (world (toy_state 5)) = Inr (toy_loss 5, 5)
     \<and> all_isfinite (toy_loss 5) \<and> backward toy_collaborators (toy_loss 5) 5 = Inr 5
     \<and> correct_gradient toy_method 10 (Some 11) (Some 12) 3 5 = Inr 5"
    by (simp add: toy_calls toy_state_def toy_loss_finite)
  have 1: "perform_inference_iteration toy_collaborators toy_method 10 (Some 11) (Some 12) 3 0 [] 0 (toy_state 5) = Inl IndexError"
    by (rule mp[OF empty_optimizer_list_raises[where im = toy_method and jm = 10 and pm = "Some 11"
          and sm = "Some 12" and n = 3 and s = "toy_state 5" and l = "toy_loss 5" and ?w1.0 = 5
          and col = toy_collaborators and ?w2.0 = 5 and ?w3.0 = 5 and pre = 0 and it = 0,
          THEN conjunct2, THEN conjunct1]]) (rule cl)
  have fcl: "compute_loss frozen_method 10 (Some 11) (Some 12) 3 (world (toy_state 5)) = Inr (toy_loss 5, 5)
     \<and> all_isfinite (toy_loss 5)"
    by (simp add: frozen_method_def toy_method_def toy_state_def toy_loss_finite)
  have "perform_inference_iteration frozen_collaborators frozen_method 10 (Some 11) (Some 12) 3 0 [] 0 (toy_state 5) =
          ebind (backward frozen_collaborators (toy_loss 5) 5)
            (\<lambda>w2. ebind (correct_gradient frozen_method 10 (Some 11) (Some 12) 3 w2) (\<lambda>w3. Inl IndexError))
        \<and> (\<exists>e. perform_inference_iteration frozen_collaborators frozen_method 10 (Some 11) (Some 12) 3 0 [] 0 (toy_state 5) = Inl e)"
    by (rule mp[OF empty_optimizer_list_raises[where im = frozen_method and jm = 10 and pm = "Some 11"
          and sm = "Some 12" and n = 3 and s = "toy_state 5" and l = "toy_loss 5" and ?w1.0 = 5
          and col = frozen_collaborators and pre = 0 and it = 0, THEN conjunct1]]) (rule fcl)
  then have F: "perform_inference_iteration frozen_collaborators frozen_method 10 (Some 11) (Some 12) 3 0 [] 0 (toy_state 5)
        = Inl RuntimeError"
    by (simp add: frozen_collaborators_def)
  have "\<exists>s'. efold (perform_inference_iteration toy_collaborators nan_method 10 (Some 11) (Some 12) 3 0 []) [0 ..< nat 2] (toy_state 5) = Inr s'
           \<and> (\<lambda>x. x) (world s') = (\<lambda>x. x) (world (toy_state 5))
           \<and> trace s' = trace (toy_state 5) @ replicate (length [0 ..< nat 2]) (Warn ''Numerical error, skipping sample'')
           \<and> length (loss_list s') = length (loss_list (toy_state 5)) + length [0 ..< nat 2]"
    by (rule loop_nonfinite_general) (simp add: nan_method_loss nan_not_finite)
  then obtain s' where
    s': "perform_inference_loop toy_collaborators nan_method 10 (Some 11) (Some 12) 3 0 [] 2 (toy_state 5) = Inr s'"
    unfolding perform_inference_loop_def by blast
  have "length (loss_list s') = length (loss_list (toy_state 5)) + nat 2 \<and>
        (\<forall>l \<in> set (drop (length (loss_list (toy_state 5))) (loss_list s')). \<not> all_isfinite l)"
    by (rule mp[OF empty_optimizer_list_raises[where im = nan_method and jm = 10 and pm = "Some 11"
          and sm = "Some 12" and n = 3 and s = "toy_state 5" and col = toy_collaborators and pre = 0
          and k = 2 and s' = s', THEN conjunct2, THEN conjunct2, THEN conjunct1]]) (rule s')
  then have "length (loss_list s') = 2 \<and> (\<forall>l \<in> set (loss_list s'). \<not> all_isfinite l)"
    by (simp add: toy_state_def)
  with 1 F s' no sf C show ?thesis by auto
qed


subsection \<open>Stein variational gradient descent\<close>

lemma emap_Inr:
  assumes "\<And>x. x \<in> set xs \<Longrightarrow> f x = Inr (g x)"
  shows "emap f xs = Inr (map g xs)"
  using assms by (induction xs) simp_all

lemma deviation_same_length:
  assumes "length x = length y"
  shows "deviation x y = Inr (\<Sum>(a, b)\<leftarrow>zip x y. (a - b) ^ 2)"
proof -
  show ?thesis using assms by (simp add: deviation_def broadcast2_def comp_def case_prod_unfold)
qed

lemma sum_deviation_same_shapes:
  assumes "same_shapes pm" "p \<in> set pm" "q \<in> set pm"
  shows "sum_deviation p q = Inr ((pairwise_distance p q) ^ 2)"
proof -
  have l: "\<And>u v. (u, v) \<in> set (zip (vars p) (vars q)) \<Longrightarrow> length (var_value u) = length (var_value v)"
  proof -
    fix u v assume uv: "(u, v) \<in> set (zip (vars p) (vars q))"
    from assms have "list_all (\<lambda>(u, v). length (var_value u) = length (var_value v)) (zip (vars p) (vars q))"
      unfolding same_shapes_def by blast
    with uv show "length (var_value u) = length (var_value v)"
      by (auto simp: list_all_iff)
  qed
  have e: "emap (\<lambda>(variable1, variable2). deviation (var_value variable1) (var_value variable2))
              (zip (vars p) (vars q))
         = Inr (map (\<lambda>(u, v). \<Sum>(a, b)\<leftarrow>zip (var_value u) (var_value v). (a - b) ^ 2) (zip (vars p) (vars q)))"
    by (rule emap_Inr) (auto simp: deviation_same_length l)
  have nn: "0 \<le> (\<Sum>(u, v)\<leftarrow>zip (vars p) (vars q).
             \<Sum>(a, b)\<leftarrow>zip (var_value u) (var_value v). (a - b) ^ 2)"
    by (auto intro!: sum_list_nonneg)
  show ?thesis
    unfolding sum_deviation_def e pairwise_distance_def using nn by simp
qed

lemma pairwise_distance_nonneg: "0 \<le> pairwise_distance p q"
  unfolding pairwise_distance_def
  by (auto intro!: real_sqrt_ge_zero sum_list_nonneg)

lemma update_bandwidth_same_shapes:
  assumes "same_shapes pm"
  shows "update_bandwidth self pm =
           Inr (self\<lparr>bandwidth := fdiv (fmul (Val 2) (fmul (median (pairwise_distances pm))
                                                          (median (pairwise_distances pm))))
                                     (np_log (length pm))\<rparr>)"
proof -
  have e: "emap (\<lambda>(particle1, particle2).
                    ebind (sum_deviation particle1 particle2) (\<lambda>d. Inr (sqrt d)))
              (filter (\<lambda>(particle1, particle2). ident particle1 \<noteq> ident particle2)
                 (List.product pm pm))
        = Inr (pairwise_distances pm)"
    unfolding pairwise_distances_def
    by (rule emap_Inr) (auto simp: sum_deviation_same_shapes[OF assms] pairwise_distance_nonneg)
  show ?thesis unfolding update_bandwidth_def e by (simp add: Let_def)
qed

lemma sort_map_mult:
  fixes xs :: "real list"
  assumes "0 \<le> c"
  shows "sort (map (\<lambda>x. c * x) xs) = map (\<lambda>x. c * x) (sort xs)"
proof (rule properties_for_sort)
  show "mset (map (\<lambda>x. c * x) (sort xs)) = mset (map (\<lambda>x. c * x) xs)" by simp
  have "sorted (sort xs)" by simp
  then show "sorted (map (\<lambda>x. c * x) (sort xs))"
    unfolding sorted_map
    by (rule sorted_wrt_mono_rel[rotated]) (simp add: assms mult_left_mono)
qed

lemma median_Val:
  assumes "xs \<noteq> []"
  shows "\<exists>m. median xs = Val m"
proof (cases "odd (length xs)")
  case True
  with assms show ?thesis by (simp add: median_def Let_def)
next
  case False
  with assms have "median xs = Val ((sort xs ! (length xs div 2 - 1) + sort xs ! (length xs div 2)) / 2)"
    by (simp add: median_def Let_def)
  then show ?thesis by blast
qed

lemma median_scale:
  assumes "0 \<le> c" "median xs = Val m"
  shows "median (map (\<lambda>x. c * x) xs) = Val (c * m)"
proof -
  have ne: "xs \<noteq> []" using assms(2) by (auto simp: median_def)
  then have n: "0 < length xs" by simp
  have i1: "length xs div 2 < length (sort xs)" using n by simp
  have i2: "length xs div 2 - 1 < length (sort xs)" using i1 by (simp add: less_imp_diff_less)
  show ?thesis
  proof (cases "odd (length xs)")
    case True
    with assms(2) ne have "m = sort xs ! (length xs div 2)" by (simp add: median_def Let_def)
    with True ne i1 show ?thesis
      by (simp add: median_def Let_def sort_map_mult[OF assms(1)])
  next
    case False
    with assms(2) ne have "m = (sort xs ! (length xs div 2 - 1) + sort xs ! (length xs div 2)) / 2"
      by (simp add: median_def Let_def)
    moreover from False ne i1 i2
    have "median (map (\<lambda>x. c * x) xs)
            = Val ((c * sort xs ! (length xs div 2 - 1) + c * sort xs ! (length xs div 2)) / 2)"
      by (simp add: median_def Let_def sort_map_mult[OF assms(1)])
    ultimately show ?thesis by (simp add: algebra_simps)
  qed
qed

lemma median_nonneg:
  assumes "\<forall>x\<in>set xs. 0 \<le> x" "median xs = Val m"
  shows "0 \<le> m"
proof -
  have ne: "xs \<noteq> []" using assms(2) by (auto simp: median_def)
  then have n: "0 < length xs" by simp
  have s: "\<forall>x\<in>set (sort xs). 0 \<le> x" using assms(1) by simp
  have i1: "sort xs ! (length xs div 2) \<in> set (sort xs)" using n by (intro nth_mem) simp
  have "length xs div 2 < length xs" using n by simp
  then have "length xs div 2 - 1 < length (sort xs)" by (simp add: less_imp_diff_less)
  then have i2: "sort xs ! (length xs div 2 - 1) \<in> set (sort xs)" by (rule nth_mem)
  from s i1 i2 have "0 \<le> sort xs ! (length xs div 2)" "0 \<le> sort xs ! (length xs div 2 - 1)"
    by blast+
  then show ?thesis using assms(2) ne by (auto simp: median_def Let_def split: if_splits)
qed

lemma product_map_map:
  "List.product (map f as) (map g bs) = map (\<lambda>(a, b). (f a, g b)) (List.product as bs)"
  by (induction as) (simp_all add: comp_def)

lemma product_by_index:
  "List.product xs xs =
     map (\<lambda>(i, j). (xs ! i, xs ! j)) (List.product [0 ..< length xs] [0 ..< length xs])"
proof -
  have "List.product (map ((!) xs) [0 ..< length xs]) (map ((!) xs) [0 ..< length xs])
         = map (\<lambda>(i, j). (xs ! i, xs ! j)) (List.product [0 ..< length xs] [0 ..< length xs])"
    by (rule product_map_map)
  then show ?thesis by (simp add: map_nth)
qed

lemma pairwise_distances_by_index:
  "pairwise_distances pm =
     map (\<lambda>(i, j). pairwise_distance (pm ! i) (pm ! j))
       (filter (\<lambda>(i, j). ident (pm ! i) \<noteq> ident (pm ! j))
          (List.product [0 ..< length pm] [0 ..< length pm]))"
  unfolding pairwise_distances_def
  by (subst product_by_index) (simp add: filter_map comp_def case_prod_unfold)

lemma pairwise_distances_rescaled:
  assumes ids: "map ident pm' = map ident pm"
    and d: "\<forall>i<length pm. \<forall>j<length pm.
              pairwise_distance (pm' ! i) (pm' ! j) = c * pairwise_distance (pm ! i) (pm ! j)"
  shows "pairwise_distances pm' = map (\<lambda>x. c * x) (pairwise_distances pm)"
proof -
  have len: "length pm' = length pm" using ids by (rule map_eq_imp_length_eq)
  have id: "ident (pm' ! i) = ident (pm ! i)" if "i < length pm" for i
  proof -
    have "map ident pm' ! i = map ident pm ! i" using ids by simp
    then show ?thesis using that len by simp
  qed
  have f: "filter (\<lambda>(i, j). ident (pm' ! i) \<noteq> ident (pm' ! j))
             (List.product [0 ..< length pm] [0 ..< length pm])
         = filter (\<lambda>(i, j). ident (pm ! i) \<noteq> ident (pm ! j))
             (List.product [0 ..< length pm] [0 ..< length pm])"
    by (rule filter_cong) (auto simp: id)
  have m: "map (\<lambda>(i, j). pairwise_distance (pm' ! i) (pm' ! j))
             (filter (\<lambda>(i, j). ident (pm ! i) \<noteq> ident (pm ! j))
                (List.product [0 ..< length pm] [0 ..< length pm]))
         = map (\<lambda>(i, j). c * pairwise_distance (pm ! i) (pm ! j))
             (filter (\<lambda>(i, j). ident (pm ! i) \<noteq> ident (pm ! j))
                (List.product [0 ..< length pm] [0 ..< length pm]))"
    by (rule map_cong) (auto simp: d)
  show ?thesis
    unfolding pairwise_distances_by_index[of pm'] pairwise_distances_by_index[of pm] len f m
    by (simp add: comp_def case_prod_unfold)
qed

lemma pairwise_distances_nonempty:
  assumes "\<exists>p\<in>set pm. \<exists>q\<in>set pm. ident p \<noteq> ident q"
  shows "pairwise_distances pm \<noteq> []"
proof -
  from assms obtain p q where "p \<in> set pm" "q \<in> set pm" "ident p \<noteq> ident q" by blast
  then have "(p, q) \<in> set (filter (\<lambda>(p, q). ident p \<noteq> ident q) (List.product pm pm))"
    by simp
  then show ?thesis unfolding pairwise_distances_def by (auto simp del: set_filter)
qed

lemma two_identities_length:
  assumes "\<exists>p\<in>set pm. \<exists>q\<in>set pm. ident p \<noteq> ident q"
  shows "2 \<le> length pm"
proof -
  from assms obtain p q where pq: "p \<in> set pm" "q \<in> set pm" "p \<noteq> q" by auto
  then have "card {p, q} \<le> card (set pm)" by (intro card_mono) auto
  also have "\<dots> \<le> length pm" by (rule card_length)
  finally show ?thesis using pq by simp
qed

lemma pairwise_distances_nonneg: "\<forall>x\<in>set (pairwise_distances pm). 0 \<le> x"
  by (auto simp: pairwise_distances_def pairwise_distance_nonneg)

text \<open>
  Claim C6, amended. For a list holding two non-identical particles, with matching variable
  shapes, \<^verbatim>\<open>update_bandwidth\<close> returns with the bandwidth \<open>2 m\<^sup>2 / ln n\<close>, where
  \<open>m\<close> is the median of the distances of the ordered pairs of non-identical particles and
  \<open>n\<close> the particle count. The bandwidth is not negative, and it is strictly positive
  exactly when the median distance is not zero. For any list of the same particles moved so
  that every pairwise distance is \<open>c\<close> times what it was, the bandwidth is \<open>c\<^sup>2\<close>
  times what it was.
\<close>

theorem bandwidth_median_heuristic:
  assumes sh: "same_shapes pm" and two: "\<exists>p\<in>set pm. \<exists>q\<in>set pm. ident p \<noteq> ident q"
  shows "\<exists>m. median (pairwise_distances pm) = Val m \<and> 0 \<le> m \<and>
           update_bandwidth self pm = Inr (self\<lparr>bandwidth := Val (2 * m ^ 2 / ln (real (length pm)))\<rparr>) \<and>
           0 \<le> 2 * m ^ 2 / ln (real (length pm)) \<and>
           (0 < 2 * m ^ 2 / ln (real (length pm)) \<longleftrightarrow> m \<noteq> 0) \<and>
           (\<forall>pm' c. same_shapes pm' \<and> map ident pm' = map ident pm \<and> 0 \<le> c \<and>
                (\<forall>i<length pm. \<forall>j<length pm.
                    pairwise_distance (pm' ! i) (pm' ! j) = c * pairwise_distance (pm ! i) (pm ! j))
              \<longrightarrow> update_bandwidth self pm' =
                    Inr (self\<lparr>bandwidth := Val (c ^ 2 * (2 * m ^ 2 / ln (real (length pm))))\<rparr>))"
proof -
  from median_Val[OF pairwise_distances_nonempty[OF two]] obtain m where
    m: "median (pairwise_distances pm) = Val m" by blast
  have m0: "0 \<le> m" using median_nonneg[OF pairwise_distances_nonneg m] .
  have n2: "2 \<le> length pm" using two_identities_length[OF two] .
  then have "1 < real (length pm)" by simp
  then have ln: "0 < ln (real (length pm))" by (rule ln_gt_zero)
  have log: "np_log (length pm) = Val (ln (real (length pm)))"
    using n2 by (auto simp: np_log_def)
  have bw: "update_bandwidth self pm = Inr (self\<lparr>bandwidth := Val (2 * m ^ 2 / ln (real (length pm)))\<rparr>)"
    unfolding update_bandwidth_same_shapes[OF sh] m log using ln by (simp add: power2_eq_square)
  have nonneg: "0 \<le> 2 * m ^ 2 / ln (real (length pm))" using ln by simp
  have pos: "0 < 2 * m ^ 2 / ln (real (length pm)) \<longleftrightarrow> m \<noteq> 0"
    using ln by (simp add: zero_less_divide_iff)
  have scale: "update_bandwidth self pm' =
                Inr (self\<lparr>bandwidth := Val (c ^ 2 * (2 * m ^ 2 / ln (real (length pm))))\<rparr>)"
    if h: "same_shapes pm' \<and> map ident pm' = map ident pm \<and> 0 \<le> c \<and>
           (\<forall>i<length pm. \<forall>j<length pm.
               pairwise_distance (pm' ! i) (pm' ! j) = c * pairwise_distance (pm ! i) (pm ! j))"
    for pm' c
  proof -
    have len: "length pm' = length pm" using h by (auto dest: map_eq_imp_length_eq)
    have ds: "pairwise_distances pm' = map (\<lambda>x. c * x) (pairwise_distances pm)"
      using h by (intro pairwise_distances_rescaled) blast+
    have m': "median (pairwise_distances pm') = Val (c * m)"
      unfolding ds using h m by (intro median_scale) blast+
    have sh': "same_shapes pm'" using h by blast
    show ?thesis
      unfolding update_bandwidth_same_shapes[OF sh'] m' len log
      using ln by (simp add: power2_eq_square)
  qed
  show ?thesis using m m0 bw nonneg pos scale by blast
qed

lemma sum_deviation_particle_at:
  "sum_deviation (particle_at i x) (particle_at j y) = Inr ((x - y) ^ 2)"
  by (simp add: particle_at_def sum_deviation_def deviation_def broadcast2_def)

lemma ident_particle_at: "ident (particle_at i x) = i"
  by (simp add: particle_at_def)

lemma median_zeros6: "median [0, 0, 0, 0, 0, 0] = Val 0"
  by (simp add: median_def)

text \<open>
  Claim C6, as stated, fails: three particles at the same position have all six pairwise
  distances 0, so the median is 0 and the bandwidth is 0, not strictly positive, although
  the particle count exceeds 2.
\<close>

theorem bandwidth_zero_counterexample:
  "length [particle_at 0 0, particle_at 1 0, particle_at 2 0] = 3 \<and>
   update_bandwidth SVGD_init [particle_at 0 0, particle_at 1 0, particle_at 2 0]
     = Inr (SVGD_init\<lparr>bandwidth := Val 0\<rparr>)"
proof -
  have ln3: "ln (3::real) \<noteq> 0" by simp
  show ?thesis
    unfolding update_bandwidth_def
    by (simp add: ident_particle_at sum_deviation_particle_at median_zeros6 np_log_def)
qed

lemma pairwise_distance_particle_at:
  "pairwise_distance (particle_at i x) (particle_at j y) = \<bar>x - y\<bar>"
  by (simp add: pairwise_distance_def particle_at_def)

lemma same_shapes_particle_at2: "same_shapes [particle_at i x, particle_at j y]"
  by (simp add: same_shapes_def particle_at_def)

lemma median_pair: "median [a, a] = Val a"
  by (simp add: median_def)

theorem bandwidth_median_heuristic_witness:
  "update_bandwidth SVGD_init [particle_at 0 0, particle_at 1 1]
      = Inr (SVGD_init\<lparr>bandwidth := Val (2 / ln 2)\<rparr>)
   \<and> 0 < 2 / ln (2::real)
   \<and> update_bandwidth SVGD_init [particle_at 0 5, particle_at 1 2]
      = Inr (SVGD_init\<lparr>bandwidth := Val (9 * (2 / ln 2))\<rparr>)"
proof -
  let ?pm = "[particle_at 0 0, particle_at 1 1]"
  let ?pm' = "[particle_at 0 5, particle_at 1 2]"
  have two: "\<exists>p\<in>set ?pm. \<exists>q\<in>set ?pm. ident p \<noteq> ident q"
    by (simp add: ident_particle_at)
  have med: "median (pairwise_distances ?pm) = Val 1"
    by (simp add: pairwise_distances_def ident_particle_at pairwise_distance_particle_at median_pair)
  have h: "same_shapes ?pm' \<and> map ident ?pm' = map ident ?pm \<and> (0::real) \<le> 3 \<and>
        (\<forall>i<length ?pm. \<forall>j<length ?pm.
           pairwise_distance (?pm' ! i) (?pm' ! j) = 3 * pairwise_distance (?pm ! i) (?pm ! j))"
    by (simp add: same_shapes_particle_at2 ident_particle_at pairwise_distance_particle_at
        less_Suc_eq numeral_2_eq_2)
  from bandwidth_median_heuristic[OF same_shapes_particle_at2 two, of SVGD_init]
  obtain m where
    m: "median (pairwise_distances ?pm) = Val m" and
    bw: "update_bandwidth SVGD_init ?pm = Inr (SVGD_init\<lparr>bandwidth := Val (2 * m ^ 2 / ln (real (length ?pm)))\<rparr>)" and
    pos: "0 < 2 * m ^ 2 / ln (real (length ?pm)) \<longleftrightarrow> m \<noteq> 0" and
    sc: "\<forall>pm' c. same_shapes pm' \<and> map ident pm' = map ident ?pm \<and> 0 \<le> c \<and>
                (\<forall>i<length ?pm. \<forall>j<length ?pm.
                    pairwise_distance (pm' ! i) (pm' ! j) = c * pairwise_distance (?pm ! i) (?pm ! j))
              \<longrightarrow> update_bandwidth SVGD_init pm' =
                    Inr (SVGD_init\<lparr>bandwidth := Val (c ^ 2 * (2 * m ^ 2 / ln (real (length ?pm))))\<rparr>)"
    by blast
  from m med have m1: "m = 1" by simp
  from sc h have "update_bandwidth SVGD_init ?pm' =
                    Inr (SVGD_init\<lparr>bandwidth := Val (3 ^ 2 * (2 * m ^ 2 / ln (real (length ?pm))))\<rparr>)"
    by blast
  with bw pos show ?thesis unfolding m1 by simp
qed

lemma two_sum_deviation:
  "sum_deviation particle_a particle_a = Inr 0"
  "sum_deviation particle_a particle_b = Inr 1"
  "sum_deviation particle_b particle_a = Inr 1"
  "sum_deviation particle_b particle_b = Inr 0"
  by (simp_all add: particle_a_def particle_b_def sum_deviation_def deviation_def broadcast2_def)

lemma two_bandwidth:
  "update_bandwidth self [particle_a, particle_b] = Inr (self\<lparr>bandwidth := Val (2 / ln 2)\<rparr>)"
proof -
  have i: "ident particle_a \<noteq> ident particle_b" "ident particle_b \<noteq> ident particle_a"
    by (simp_all add: particle_a_def particle_b_def)
  have ln2: "ln (2::real) \<noteq> 0" by simp
  show ?thesis
    unfolding update_bandwidth_def
    by (simp add: i two_sum_deviation median_pair np_log_def ln2)
qed

lemma two_vars:
  "vars particle_a = [\<lparr>var_value = [0], var_grad = [Val 0]\<rparr>]"
  "vars particle_b = [\<lparr>var_value = [1], var_grad = [Val 0]\<rparr>]"
  by (simp_all add: particle_a_def particle_b_def)

lemma two_kernel:
  "kernel 0 (Val (2 / ln 2)) = Val 1"
  "kernel 1 (Val (2 / ln 2)) = Val (exp (- (ln 2 / 4)))"
  by (simp_all add: kernel_def)

text \<open>
  Claim C7. Two particles at 0 and 1 with zero raw gradients. The bandwidth is
  \<open>2 / ln 2\<close>, the kernel is 1 on the self-pairs and \<open>exp (- ln 2 / 4)\<close> across, and the
  method writes the gradient \<open>- k / bandwidth\<close> to the particle at 0 and \<open>+ k / bandwidth\<close>
  to the particle at 1: the interaction term it adds for particle \<open>i\<close> and other particle
  \<open>j\<close> is \<open>-(value_j - value_i) k / bandwidth\<close>, since \<^verbatim>\<open>interaction_matrix\<close> is built
  with \<^verbatim>\<open>particle_index2\<close> as its outer index and read as
  \<^verbatim>\<open>interaction_matrix[particle_index][other_index]\<close>. The claim's term
  \<open>-(value_i - value_j) k / bandwidth\<close> gives the opposite signs.
\<close>

theorem stein_interaction_sign:
  "correct_gradient_svgd SVGD_init [particle_a, particle_b] =
     Inr (SVGD_init\<lparr>bandwidth := Val (2 / ln 2)\<rparr>,
          [particle_a\<lparr>vars := [\<lparr>var_value = [0], var_grad = [Val (- (exp (- (ln 2 / 4)) * ln 2 / 2))]\<rparr>]\<rparr>,
           particle_b\<lparr>vars := [\<lparr>var_value = [1], var_grad = [Val (exp (- (ln 2 / 4)) * ln 2 / 2)]\<rparr>]\<rparr>])
   \<and> spec_stein_gradient (2 / ln 2) (\<lambda>i j. if i = j then 1 else exp (- (ln 2 / 4))) [0, 1] [0, 0] 0
       = exp (- (ln 2 / 4)) * ln 2 / 2
   \<and> spec_stein_gradient (2 / ln 2) (\<lambda>i j. if i = j then 1 else exp (- (ln 2 / 4))) [0, 1] [0, 0] 1
       = - (exp (- (ln 2 / 4)) * ln 2 / 2)
   \<and> (0::real) < exp (- (ln 2 / 4)) * ln 2 / 2"
proof -
  have 1: "correct_gradient_svgd SVGD_init [particle_a, particle_b] =
     Inr (SVGD_init\<lparr>bandwidth := Val (2 / ln 2)\<rparr>,
          [particle_a\<lparr>vars := [\<lparr>var_value = [0], var_grad = [Val (- (exp (- (ln 2 / 4)) * ln 2 / 2))]\<rparr>]\<rparr>,
           particle_b\<lparr>vars := [\<lparr>var_value = [1], var_grad = [Val (exp (- (ln 2 / 4)) * ln 2 / 2)]\<rparr>]\<rparr>])"
    unfolding correct_gradient_svgd_def
    by (simp add: two_bandwidth two_sum_deviation two_kernel two_vars nth_err_def broadcast2_def tensor_sum_def)
  have u: "[0 ..< 2] = [0, Suc 0]" by (simp add: upt_rec)
  have 2: "spec_stein_gradient (2 / ln 2) (\<lambda>i j. if i = j then 1 else exp (- (ln 2 / 4))) [0, 1] [0, 0] 0
       = exp (- (ln 2 / 4)) * ln 2 / 2"
    by (simp add: spec_stein_gradient_def u)
  have 3: "spec_stein_gradient (2 / ln 2) (\<lambda>i j. if i = j then 1 else exp (- (ln 2 / 4))) [0, 1] [0, 0] 1
       = - (exp (- (ln 2 / 4)) * ln 2 / 2)"
    by (simp add: spec_stein_gradient_def u)
  have 4: "(0::real) < exp (- (ln 2 / 4)) * ln 2 / 2" by simp
  show ?thesis using 1 2 3 4 by blast
qed


subsection \<open>Wasserstein variational gradient descent\<close>

lemma sum_list_map_divide:
  fixes f :: "'a \<Rightarrow> real"
  shows "sum_list (map (\<lambda>x. f x / c) xs) = sum_list (map f xs) / c"
  by (induction xs) (simp_all add: add_divide_distrib)

lemma sum_list_const_one:
  fixes f :: "'a \<Rightarrow> real"
  assumes "\<And>x. x \<in> set xs \<Longrightarrow> f x = 1"
  shows "sum_list (map f xs) = real (length xs)"
  using assms by (induction xs) simp_all

lemma softmax_sum_pos:
  fixes ls :: "real list"
  assumes "ls \<noteq> []"
  shows "0 < (\<Sum>l\<leftarrow>ls. exp (l - a))"
proof -
  from assms obtain l rest where ls: "ls = l # rest" by (cases ls) auto
  have "0 \<le> (\<Sum>l\<leftarrow>rest. exp (l - a))" by (auto intro!: sum_list_nonneg)
  moreover have "0 < exp (l - a)" by simp
  ultimately have "0 < exp (l - a) + (\<Sum>l\<leftarrow>rest. exp (l - a))" by (rule add_pos_nonneg[rotated])
  then show ?thesis unfolding ls by simp
qed

text \<open>
  Claim C5. With at least one sampler, \<^verbatim>\<open>post_process\<close> returns and stores one weight
  per sampler, the weight of a sampler with log-normalizer \<open>l\<close> being
  \<open>exp (l - max) / \<Sum> exp (l' - max)\<close> over the log-normalizers \<open>L\<close> of all samplers.
  Every weight is non-negative, the weights sum to 1, and when all log-normalizers are equal
  every weight is one over the number of samplers. The log-normalizers are finite by their
  type.
\<close>

theorem ensemble_weights_softmax:
  fixes ml :: "('s, 'p, 'd, 'x, 'v) model_layer" and self :: "('s, 'v) wvgd"
  defines "L \<equiv> map (\<lambda>sampler. log_normalizer ml
                        (sampler_get_sample ml sampler (number_post_samples self)) sampler)
                 (wvgd_sampler_model self)"
  assumes ne: "wvgd_sampler_model self \<noteq> []"
  shows "\<exists>ws. post_process_wvgd ml self = Inr (self\<lparr>weights := Some ws\<rparr>)
           \<and> ws = map (\<lambda>l. exp (l - Max (set L)) / (\<Sum>l'\<leftarrow>L. exp (l' - Max (set L)))) L
           \<and> length ws = length (wvgd_sampler_model self)
           \<and> (\<forall>w\<in>set ws. 0 \<le> w)
           \<and> sum_list ws = 1
           \<and> ((\<forall>l\<in>set L. l = hd L) \<longrightarrow> (\<forall>w\<in>set ws. w = 1 / real (length ws)))"
proof -
  let ?S = "\<Sum>l'\<leftarrow>L. exp (l' - Max (set L))"
  let ?ws = "map (\<lambda>l. exp (l - Max (set L)) / ?S) L"
  have lw: "map (\<lambda>(sampler, s). log_normalizer ml s sampler)
              (zip (wvgd_sampler_model self)
                 (map (\<lambda>sampler. sampler_get_sample ml sampler (number_post_samples self))
                    (wvgd_sampler_model self))) = L"
    unfolding L_def by (simp add: zip_map2 zip_same_conv_map comp_def case_prod_unfold)
  have Lne: "L \<noteq> []" using ne by (simp add: L_def)
  have S: "0 < ?S" by (rule softmax_sum_pos[OF Lne])
  have run: "post_process_wvgd ml self = Inr (self\<lparr>weights := Some ?ws\<rparr>)"
    unfolding post_process_wvgd_def Let_def lw using Lne by (simp add: comp_def)
  have len: "length ?ws = length (wvgd_sampler_model self)" by (simp add: L_def)
  have nonneg: "\<forall>w\<in>set ?ws. 0 \<le> w" using S by (auto intro!: divide_nonneg_pos less_imp_le)
  have total: "sum_list ?ws = 1"
    using S by (simp add: sum_list_map_divide)
  have uniform: "\<forall>w\<in>set ?ws. w = 1 / real (length ?ws)" if eq: "\<forall>l\<in>set L. l = hd L"
  proof -
    have "set L = {hd L}" using eq Lne by (cases L) auto
    then have M: "Max (set L) = hd L" by simp
    have one: "exp (l - hd L) = 1" if "l \<in> set L" for l
    proof -
      from eq that have "l = hd L" by blast
      then show ?thesis by simp
    qed
    then have "(\<Sum>l'\<leftarrow>L. exp (l' - hd L)) = real (length L)"
      by (intro sum_list_const_one) blast
    then have "?S = real (length L)" unfolding M .
    then show ?thesis using one unfolding M by auto
  qed
  show ?thesis using run len nonneg total uniform by blast
qed

theorem ensemble_weights_softmax_witness:
  "post_process_wvgd toy_layer ((toy_wvgd False)\<lparr>wvgd_sampler_model := [1, 1]\<rparr>)
     = Inr ((toy_wvgd False)\<lparr>wvgd_sampler_model := [1, 1], weights := Some [1 / 2, 1 / 2]\<rparr>)"
proof -
  let ?self = "(toy_wvgd False)\<lparr>wvgd_sampler_model := [1, 1]\<rparr>"
  let ?L = "map (\<lambda>sampler. log_normalizer toy_layer
                        (sampler_get_sample toy_layer sampler (number_post_samples ?self)) sampler)
                 (wvgd_sampler_model ?self)"
  have L: "?L = [1, 1]" by (simp add: toy_layer_def)
  have ne: "wvgd_sampler_model ?self \<noteq> []" by simp
  from ensemble_weights_softmax[OF ne, of toy_layer] obtain ws where
    run: "post_process_wvgd toy_layer ?self = Inr (?self\<lparr>weights := Some ws\<rparr>)" and
    len: "length ws = length (wvgd_sampler_model ?self)" and
    uni: "(\<forall>l\<in>set ?L. l = hd ?L) \<longrightarrow> (\<forall>w\<in>set ws. w = 1 / real (length ws))"
    by blast
  have "\<forall>l\<in>set ?L. l = hd ?L" unfolding L by simp
  with uni have u: "\<forall>w\<in>set ws. w = 1 / real (length ws)" by blast
  from len have l2: "length ws = 2" by simp
  then obtain a b where ws: "ws = [a, b]"
    by (cases ws; cases "tl ws") auto
  with u l2 have "ws = [1 / 2, 1 / 2]" by simp
  with run show ?thesis by simp
qed








subsection \<open>Maximum a posteriori\<close>

lemma emap_list_all2:
  assumes "\<And>x. x \<in> set xs \<Longrightarrow> \<exists>y. f x = Inr y"
  shows "\<exists>ys. emap f xs = Inr ys \<and> list_all2 (\<lambda>y x. f x = Inr y) ys xs"
  using assms
proof (induction xs)
  case Nil
  show ?case by simp
next
  case (Cons x xs)
  from Cons.prems obtain y where y: "f x = Inr y" by auto
  from Cons obtain ys where ys: "emap f xs = Inr ys" "list_all2 (\<lambda>y x. f x = Inr y) ys xs"
    by auto
  have "emap f (x # xs) = Inr (y # ys)" using y ys by simp
  moreover have "list_all2 (\<lambda>y x. f x = Inr y) (y # ys) (x # xs)" using y ys by simp
  ultimately show ?case by blast
qed

lemma check_MAP_raises_iff:
  "check_model_compatibility_MAP fl pm = Inl AssertionError \<longleftrightarrow>
     (\<exists>x\<in>set (fl pm). var_class x \<noteq> Root \<and> var_class x \<noteq> Deterministic)"
  by (auto simp: check_model_compatibility_MAP_def deterministic_or_root_def list_all_iff)

text \<open>
  Claim C8. Let the sample drawn from the joint model hold each variable of the model once,
  and let the indexing of the latent values succeed. Then
  \<^verbatim>\<open>MAP.construct_posterior_model\<close> returns a model that holds, for the latent entries
  of the sample in their order (the variables that are not observed, not deterministic and
  not root), one variable each: deterministic, learnable, of the same name, holding the
  indexed sample value; these entries are the variables of the joint model that are not
  observed, not deterministic and not root, each once; and the model passes MAP's own
  compatibility check. \<^verbatim>\<open>MAP.check_model_compatibility\<close> raises
  \<^verbatim>\<open>AssertionError\<close> exactly when the flattened posterior model holds a variable that is
  neither root nor deterministic, and returns otherwise.
\<close>

theorem map_posterior_point_masses:
  fixes get_sample :: "'m \<Rightarrow> ('v variable \<times> 'v) list"
  defines "latent \<equiv> (\<lambda>jm. filter (\<lambda>(x, v). \<not> is_observed x \<and> \<not> deterministic_or_root x) (get_sample jm))"
  shows "(distinct (map fst (get_sample jm)) \<and> set (map fst (get_sample jm)) = set (flatten_joint jm) \<and>
          (\<forall>(x, v)\<in>set (latent jm). \<exists>d. first_draw v = Inr d) \<longrightarrow>
            (\<exists>pm. construct_posterior_model_MAP get_sample first_draw jm = Inr pm \<and>
                  list_all2 (\<lambda>p (x, v). var_name p = var_name x \<and> var_class p = Deterministic \<and>
                                learnable p \<and> (\<exists>d. first_draw v = Inr d \<and> var_data p = Some d))
                     pm (latent jm) \<and>
                  distinct (map fst (latent jm)) \<and>
                  set (map fst (latent jm)) =
                    {x \<in> set (flatten_joint jm).
                       \<not> is_observed x \<and> var_class x \<noteq> Deterministic \<and> var_class x \<noteq> Root} \<and>
                  check_model_compatibility_MAP (\<lambda>m. m) pm = Inr ()))
       \<and> (check_model_compatibility_MAP fl posterior = Inl AssertionError \<longleftrightarrow>
            (\<exists>x\<in>set (fl posterior). var_class x \<noteq> Root \<and> var_class x \<noteq> Deterministic))
       \<and> (check_model_compatibility_MAP fl posterior = Inr () \<longleftrightarrow>
            (\<forall>x\<in>set (fl posterior). var_class x = Root \<or> var_class x = Deterministic))"
proof (intro conjI impI)
  assume a: "distinct (map fst (get_sample jm)) \<and> set (map fst (get_sample jm)) = set (flatten_joint jm) \<and>
          (\<forall>(x, v)\<in>set (latent jm). \<exists>d. first_draw v = Inr d)"
  let ?f = "\<lambda>(variable, value). ebind (first_draw value)
                (\<lambda>v. Inr (DeterministicVariable v (var_name variable) True))"
  have ex: "\<exists>y. ?f xv = Inr y" if "xv \<in> set (latent jm)" for xv
  proof -
    obtain x v where xv: "xv = (x, v)" by (cases xv)
    with a that obtain d where "first_draw v = Inr d" by blast
    with xv show ?thesis by simp
  qed
  from emap_list_all2[of "latent jm" ?f, OF ex] obtain pm where
    pm: "emap ?f (latent jm) = Inr pm" and rel: "list_all2 (\<lambda>y x. ?f x = Inr y) pm (latent jm)"
    by blast
  have run: "construct_posterior_model_MAP get_sample first_draw jm = Inr pm"
    using pm by (simp add: construct_posterior_model_MAP_def latent_def Let_def)
  have R: "list_all2 (\<lambda>p (x, v). var_name p = var_name x \<and> var_class p = Deterministic \<and>
                                learnable p \<and> (\<exists>d. first_draw v = Inr d \<and> var_data p = Some d))
                     pm (latent jm)"
    by (rule list_all2_mono[OF rel]) (auto simp: ebind_Inr_iff DeterministicVariable_def)
  have d: "distinct (map fst (latent jm))"
    using a unfolding latent_def by (simp add: distinct_map_filter)
  have "set (map fst (latent jm)) =
          {x \<in> set (map fst (get_sample jm)). \<not> is_observed x \<and> \<not> deterministic_or_root x}"
    unfolding latent_def by (auto simp: image_iff)
  then have s: "set (map fst (latent jm)) =
                    {x \<in> set (flatten_joint jm).
                       \<not> is_observed x \<and> var_class x \<noteq> Deterministic \<and> var_class x \<noteq> Root}"
    using a by (auto simp: deterministic_or_root_def)
  have "\<forall>p\<in>set pm. var_class p = Deterministic"
    using R by (auto simp: list_all2_conv_all_nth in_set_conv_nth case_prod_unfold)
  then have c: "check_model_compatibility_MAP (\<lambda>m. m) pm = Inr ()"
    by (auto simp: check_model_compatibility_MAP_def deterministic_or_root_def list_all_iff)
  show "\<exists>pm. construct_posterior_model_MAP get_sample first_draw jm = Inr pm \<and>
                  list_all2 (\<lambda>p (x, v). var_name p = var_name x \<and> var_class p = Deterministic \<and>
                                learnable p \<and> (\<exists>d. first_draw v = Inr d \<and> var_data p = Some d))
                     pm (latent jm) \<and>
                  distinct (map fst (latent jm)) \<and>
                  set (map fst (latent jm)) =
                    {x \<in> set (flatten_joint jm).
                       \<not> is_observed x \<and> var_class x \<noteq> Deterministic \<and> var_class x \<noteq> Root} \<and>
                  check_model_compatibility_MAP (\<lambda>m. m) pm = Inr ()"
    using run R d s c by blast
next
  show "check_model_compatibility_MAP fl posterior = Inl AssertionError \<longleftrightarrow>
            (\<exists>x\<in>set (fl posterior). var_class x \<noteq> Root \<and> var_class x \<noteq> Deterministic)"
    by (rule check_MAP_raises_iff)
next
  show "check_model_compatibility_MAP fl posterior = Inr () \<longleftrightarrow>
            (\<forall>x\<in>set (fl posterior). var_class x = Root \<or> var_class x = Deterministic)"
    by (auto simp: check_model_compatibility_MAP_def deterministic_or_root_def list_all_iff)
qed

lemma toy_latent:
  "filter (\<lambda>(x, v). \<not> is_observed x \<and> \<not> deterministic_or_root x) (toy_sample ())
     = [(\<lparr>var_name = ''mu'', var_class = Random, is_observed = False, learnable = False, var_data = None\<rparr>, 5)]"
  by (simp add: toy_sample_def toy_variables_def deterministic_or_root_def)

theorem map_posterior_point_masses_witness:
  "(\<exists>pm. construct_posterior_model_MAP toy_sample Inr () = Inr pm \<and>
         map var_name pm = [''mu''] \<and> map var_data pm = [Some 5] \<and>
         check_model_compatibility_MAP (\<lambda>m. m) pm = Inr ())
   \<and> check_model_compatibility_MAP (\<lambda>m. m) toy_variables = Inl AssertionError"
proof -
  note t = map_posterior_point_masses[where get_sample = toy_sample and jm = "()"
      and flatten_joint = "\<lambda>_. toy_variables" and first_draw = Inr and fl = "\<lambda>m. m"
      and posterior = toy_variables]
  have h: "distinct (map fst (toy_sample ())) \<and> set (map fst (toy_sample ())) = set toy_variables \<and>
          (\<forall>(x, v)\<in>set (filter (\<lambda>(x, v). \<not> is_observed x \<and> \<not> deterministic_or_root x) (toy_sample ())).
              \<exists>d. (Inr v :: error + real) = Inr d)"
    by (simp add: toy_sample_def toy_variables_def)
  from t h obtain pm where
    run: "construct_posterior_model_MAP toy_sample Inr () = Inr pm" and
    rel: "list_all2 (\<lambda>p (x, v). var_name p = var_name x \<and> var_class p = Deterministic \<and>
                                learnable p \<and> (\<exists>d. (Inr v :: error + real) = Inr d \<and> var_data p = Some d))
                     pm (filter (\<lambda>(x, v). \<not> is_observed x \<and> \<not> deterministic_or_root x) (toy_sample ()))" and
    chk: "check_model_compatibility_MAP (\<lambda>m. m) pm = Inr ()"
    by blast
  from rel obtain p where pm: "pm = [p]" and p: "var_name p = ''mu''" "var_data p = Some 5"
    unfolding toy_latent by (auto simp: list_all2_Cons2)
  have bad: "\<exists>x\<in>set toy_variables. var_class x \<noteq> Root \<and> var_class x \<noteq> Deterministic"
    by (simp add: toy_variables_def)
  from t bad have 2: "check_model_compatibility_MAP (\<lambda>m. m) toy_variables = Inl AssertionError"
    by blast
  from run chk pm p 2 show ?thesis by simp
qed

end
